theory Spec2Isabelle
  imports Complex_Main
begin

section \<open>Data model\<close>

text \<open>
  Times are seconds. The source stores them as Python floats; they are idealised here as
  reals, so rounding of float subtraction and addition is not modelled.

  \<^verbatim>\<open>WhisperSegment\<close> (module \<^verbatim>\<open>models\<close>) has the fields id, start, end, text; the
  aligner adds \<^verbatim>\<open>speaker\<close> with \<^verbatim>\<open>setattr\<close> and the handlers read it with
  \<^verbatim>\<open>getattr(seg, "speaker", None)\<close>, so an absent attribute is \<open>None\<close>.
  The fields carry a prefix because \<^verbatim>\<open>end\<close> and \<^verbatim>\<open>text\<close> are reserved words.
\<close>

record segment =
  seg_id :: int
  seg_start :: real
  seg_end :: real
  seg_text :: string
  seg_speaker :: "string option"

text \<open>\<^verbatim>\<open>SpeakerSegment\<close> of \<^verbatim>\<open>diarization/__init__.py\<close>; the serverless handler receives
  the same three entries as a dictionary.\<close>

record speaker_segment =
  sp_start :: real
  sp_end :: real
  sp_speaker :: string

section \<open>Speaker alignment\<close>

text \<open>
  The inner loop of \<^verbatim>\<open>merge_with_transcription\<close>: every diarization segment whose
  intersection with \<open>[start, end]\<close> is non-empty appends \<open>(speaker, duration)\<close>.
\<close>

fun find_overlapping :: "real \<Rightarrow> real \<Rightarrow> speaker_segment list \<Rightarrow> (string \<times> real) list" where
  "find_overlapping start end' [] = []"
| "find_overlapping start end' (spk_segment # rest) =
     (let overlap_start = max start (sp_start spk_segment);
          overlap_end = min end' (sp_end spk_segment)
      in (if overlap_end > overlap_start
          then [(sp_speaker spk_segment, overlap_end - overlap_start)]
          else []) @ find_overlapping start end' rest)"

text \<open>
  \<^verbatim>\<open>overlapping.sort(key=lambda x: x[1], reverse=True)\<close>: Python's sort is stable, and
  with \<^verbatim>\<open>reverse=True\<close> it sorts as if each comparison were reversed, still keeping
  equal keys in their original order. That is the stable insertion sort of the library on
  the negated key.
\<close>

definition sort_reverse :: "(string \<times> real) list \<Rightarrow> (string \<times> real) list" where
  "sort_reverse overlapping = sort_key (\<lambda>x. - snd x) overlapping"

text \<open>The body of the outer loop: the label that \<^verbatim>\<open>setattr\<close> writes.\<close>

definition dominant_speaker :: "speaker_segment list \<Rightarrow> segment \<Rightarrow> string" where
  "dominant_speaker diar segment =
     (let overlapping = find_overlapping (seg_start segment) (seg_end segment) diar
      in if overlapping \<noteq> []
         then (case sort_reverse overlapping of first # _ \<Rightarrow> fst first | [] \<Rightarrow> ''unknown'')
         else ''unknown'')"

text \<open>\<^verbatim>\<open>Diarizer.merge_with_transcription\<close> (single-process API).\<close>

definition merge_with_transcription :: "speaker_segment list \<Rightarrow> segment list \<Rightarrow> segment list" where
  "merge_with_transcription diarization_segments transcription_segments =
     (if diarization_segments = [] then transcription_segments
      else map (\<lambda>segment. segment\<lparr>seg_speaker := Some (dominant_speaker diarization_segments segment)\<rparr>)
             transcription_segments)"

text \<open>\<^verbatim>\<open>merge_diarization_with_transcription\<close> (serverless transcription handler): the
  same code over dictionaries.\<close>

definition merge_diarization_with_transcription ::
  "speaker_segment list \<Rightarrow> segment list \<Rightarrow> segment list" where
  "merge_diarization_with_transcription diarization_segments transcription_segments =
     (if diarization_segments = [] then transcription_segments
      else map (\<lambda>segment. segment\<lparr>seg_speaker := Some (dominant_speaker diarization_segments segment)\<rparr>)
             transcription_segments)"

text \<open>The overlap duration as the specification writes it:
  \<open>max(0, min(s.end, d.end) - max(s.start, d.start))\<close>.\<close>

definition overlap_duration :: "segment \<Rightarrow> speaker_segment \<Rightarrow> real" where
  "overlap_duration s d = max 0 (min (seg_end s) (sp_end d) - max (seg_start s) (sp_start d))"

definition aligners :: "(speaker_segment list \<Rightarrow> segment list \<Rightarrow> segment list) set" where
  "aligners = {merge_with_transcription, merge_diarization_with_transcription}"

section \<open>JSON values and the Python operations applied to them\<close>

text \<open>
  A decoded JSON document. A dictionary is an association list with distinct keys, read
  with \<open>map_of\<close>.
\<close>

datatype json =
    JNull
  | JBool bool
  | JNum real
  | JStr string
  | JArr "json list"
  | JObj "(string \<times> json) list"

datatype py_exception = TypeError | KeyError | AttributeError

text \<open>
  What \<^verbatim>\<open>str(e)\<close> prints for an exception, what an f-string prints for a value that is
  not a string, and what \<^verbatim>\<open>str(e)\<close> prints for the web framework's HTTPException are
  fixed by the interpreter and the framework, not by this repository: they are parameters.
\<close>

record python =
  str_of_value :: "json \<Rightarrow> string"
  str_of_exception :: "py_exception \<Rightarrow> string"
  str_of_http_exception :: "nat \<Rightarrow> string \<Rightarrow> string"

definition format_value :: "python \<Rightarrow> json \<Rightarrow> string" where
  "format_value py v = (case v of JStr s \<Rightarrow> s | _ \<Rightarrow> str_of_value py v)"

fun contains_str :: "string \<Rightarrow> string \<Rightarrow> bool" where
  "contains_str needle [] = (needle = [])"
| "contains_str needle (c # cs) =
     (take (length needle) (c # cs) = needle \<or> contains_str needle cs)"

text \<open>\<^verbatim>\<open>key in v\<close>: key lookup on a dictionary, membership on a list, substring test on a
  string, TypeError on anything else.\<close>

definition py_in :: "string \<Rightarrow> json \<Rightarrow> py_exception + bool" where
  "py_in key v =
     (case v of
        JObj d \<Rightarrow> Inr (map_of d key \<noteq> None)
      | JArr xs \<Rightarrow> Inr (JStr key \<in> set xs)
      | JStr s \<Rightarrow> Inr (contains_str key s)
      | _ \<Rightarrow> Inl TypeError)"

text \<open>\<^verbatim>\<open>v[key]\<close> with a string key.\<close>

definition py_getitem :: "json \<Rightarrow> string \<Rightarrow> py_exception + json" where
  "py_getitem v key =
     (case v of
        JObj d \<Rightarrow> (case map_of d key of Some x \<Rightarrow> Inr x | None \<Rightarrow> Inl KeyError)
      | _ \<Rightarrow> Inl TypeError)"

definition error_result :: "json \<Rightarrow> json" where
  "error_result e = JObj [(''error'', e)]"

definition json_of_option :: "string option \<Rightarrow> json" where
  "json_of_option x = (case x of None \<Rightarrow> JNull | Some s \<Rightarrow> JStr s)"

section \<open>Requests\<close>

text \<open>
  The parameters of a request, after the defaults of \<^verbatim>\<open>job_input.get\<close> and of the form
  fields have been applied, at the types the docstrings give. The serverless handlers
  read \<open>audio\<close> (a URL or base64 data), the single-process API reads the uploaded file (\<open>upload\<close>);
  each entry point reads the fields its source reads.
\<close>

record request =
  audio :: "string option"
  audio_format :: "string option"
  upload :: string
  language :: "string option"
  response_format :: string
  timestamps :: bool
  diarize :: bool
  word_timestamps :: bool
  temperature :: real
  diarization_segments :: "speaker_segment list option"

text \<open>Python truthiness of an optional string and of an optional list.\<close>

definition truthy_str :: "string option \<Rightarrow> bool" where
  "truthy_str x = (case x of None \<Rightarrow> False | Some s \<Rightarrow> s \<noteq> [])"

definition truthy_list :: "'a list option \<Rightarrow> bool" where
  "truthy_list x = (case x of None \<Rightarrow> False | Some xs \<Rightarrow> xs \<noteq> [])"

section \<open>Orchestrator\<close>

text \<open>
  \<^verbatim>\<open>requests.post(...)\<close>, \<^verbatim>\<open>raise_for_status()\<close> and \<^verbatim>\<open>response.json()\<close> are the
  network: the outcome of one call is a timeout, a transport-level
  \<^verbatim>\<open>RequestException\<close>, some other exception (each with its \<^verbatim>\<open>str(e)\<close>), or the
  decoded body.
\<close>

datatype http_outcome =
    Timeout
  | RequestException string
  | OtherException string
  | Response json

type_synonym network = "string \<Rightarrow> json \<Rightarrow> nat \<Rightarrow> http_outcome"

text \<open>The body of the \<^verbatim>\<open>try\<close> block of \<^verbatim>\<open>call_runpod_endpoint\<close> once the body is decoded.\<close>

definition extract_output :: "json \<Rightarrow> py_exception + json" where
  "extract_output result =
     (case py_in ''error'' result of
        Inl e \<Rightarrow> Inl e
      | Inr True \<Rightarrow>
          (case py_getitem result ''error'' of
             Inl e \<Rightarrow> Inl e
           | Inr err \<Rightarrow> Inr (error_result err))
      | Inr False \<Rightarrow>
          (case py_in ''output'' result of
             Inl e \<Rightarrow> Inl e
           | Inr True \<Rightarrow> py_getitem result ''output''
           | Inr False \<Rightarrow> Inr result))"

definition call_runpod_endpoint :: "python \<Rightarrow> network \<Rightarrow> string \<Rightarrow> json \<Rightarrow> nat \<Rightarrow> json" where
  "call_runpod_endpoint py post url payload timeout =
     (case post url payload timeout of
        Timeout \<Rightarrow> error_result (JStr ''Endpoint request timed out'')
      | RequestException e \<Rightarrow> error_result (JStr (''Failed to call endpoint: '' @ e))
      | OtherException e \<Rightarrow> error_result (JStr e)
      | Response result \<Rightarrow>
          (case extract_output result of
             Inl e \<Rightarrow> error_result (JStr (str_of_exception py e))
           | Inr r \<Rightarrow> r))"

text \<open>The endpoint URLs that \<^verbatim>\<open>initialize\<close> stores in the module's globals.\<close>

record endpoints =
  DIARIZATION_ENDPOINT :: string
  TRANSCRIPTION_ENDPOINT :: string

definition diar_payload :: "request \<Rightarrow> json" where
  "diar_payload job_input =
     JObj [(''input'', JObj [(''audio'', json_of_option (audio job_input)),
                            (''audio_format'', json_of_option (audio_format job_input))])]"

text \<open>
  Step 1 of the orchestrator's handler. The result is the list of calls made and either
  the exception that leaves the step or the value of \<^verbatim>\<open>diarization_result\<close> after it:
  \<open>None\<close>, or a dictionary without an \<^verbatim>\<open>error\<close> key.
\<close>

definition diarization_step ::
  "python \<Rightarrow> endpoints \<Rightarrow> network \<Rightarrow> request
     \<Rightarrow> (string \<times> json \<times> nat) list \<times> (py_exception + (string \<times> json) list option)" where
  "diarization_step py cfg post job_input =
     (if diarize job_input then
        let diarization_result =
              call_runpod_endpoint py post (DIARIZATION_ENDPOINT cfg) (diar_payload job_input) 600
        in ([(DIARIZATION_ENDPOINT cfg, diar_payload job_input, 600)],
            case py_in ''error'' diarization_result of
              Inl e \<Rightarrow> Inl e
            | Inr True \<Rightarrow>
                (case py_getitem diarization_result ''error'' of
                   Inl e \<Rightarrow> Inl e
                 | Inr _ \<Rightarrow> Inr None)
            | Inr False \<Rightarrow>
                (case diarization_result of
                   JObj d \<Rightarrow> Inr (Some d)
                 | _ \<Rightarrow> Inl AttributeError))
      else ([], Inr None))"

text \<open>The fields of \<^verbatim>\<open>trans_payload["input"]\<close>; the diarization segments are added only
  when step 1 left a non-empty dictionary with a \<^verbatim>\<open>segments\<close> key.\<close>

definition trans_input :: "request \<Rightarrow> (string \<times> json) list option \<Rightarrow> (string \<times> json) list" where
  "trans_input job_input diarization_result =
     [(''audio'', json_of_option (audio job_input)),
      (''audio_format'', json_of_option (audio_format job_input)),
      (''language'', json_of_option (language job_input)),
      (''response_format'', JStr (response_format job_input)),
      (''timestamps'', JBool (timestamps job_input \<or> diarize job_input)),
      (''word_timestamps'', JBool (word_timestamps job_input)),
      (''temperature'', JNum (temperature job_input))]
     @ (case diarization_result of
          None \<Rightarrow> []
        | Some d \<Rightarrow>
            (if d \<noteq> [] then
               (case map_of d ''segments'' of
                  None \<Rightarrow> []
                | Some segs \<Rightarrow> [(''diarization_segments'', segs)])
             else []))"

definition trans_payload :: "request \<Rightarrow> (string \<times> json) list option \<Rightarrow> json" where
  "trans_payload job_input diarization_result =
     JObj [(''input'', JObj (trans_input job_input diarization_result))]"

text \<open>Steps 2 and 3 after the transcription call has returned.\<close>

definition job_result :: "python \<Rightarrow> json \<Rightarrow> json" where
  "job_result py transcription_result =
     (case py_in ''error'' transcription_result of
        Inl e \<Rightarrow> error_result (JStr (str_of_exception py e))
      | Inr True \<Rightarrow>
          (case py_getitem transcription_result ''error'' of
             Inl e \<Rightarrow> error_result (JStr (str_of_exception py e))
           | Inr err \<Rightarrow> error_result (JStr (''Transcription failed: '' @ format_value py err)))
      | Inr False \<Rightarrow> transcription_result)"

text \<open>\<^verbatim>\<open>handler\<close> of \<^verbatim>\<open>runpod_handler_orchestrator.py\<close>: the calls it makes, in order,
  and the dictionary it returns.\<close>

definition orchestrator_handler ::
  "python \<Rightarrow> endpoints \<Rightarrow> network \<Rightarrow> request \<Rightarrow> (string \<times> json \<times> nat) list \<times> json" where
  "orchestrator_handler py cfg post job_input =
     (if \<not> truthy_str (audio job_input)
      then ([], error_result (JStr ''Missing required 'audio' field in input''))
      else
        (case diarization_step py cfg post job_input of
           (calls, Inl e) \<Rightarrow> (calls, error_result (JStr (str_of_exception py e)))
         | (calls, Inr diarization_result) \<Rightarrow>
             (calls @ [(TRANSCRIPTION_ENDPOINT cfg, trans_payload job_input diarization_result, 900)],
              job_result py
                (call_runpod_endpoint py post (TRANSCRIPTION_ENDPOINT cfg)
                   (trans_payload job_input diarization_result) 900))))"

text \<open>The failures of the diarization call that the specification lists: a timeout, a
  transport error (or any other exception of the call), an \<^verbatim>\<open>error\<close> field in the
  response or in its \<^verbatim>\<open>output\<close>.\<close>

definition has_error_field :: "json \<Rightarrow> bool" where
  "has_error_field r = (case r of JObj d \<Rightarrow> map_of d ''error'' \<noteq> None | _ \<Rightarrow> False)"

definition call_failed :: "http_outcome \<Rightarrow> bool" where
  "call_failed outcome =
     (case outcome of
        Timeout \<Rightarrow> True
      | RequestException _ \<Rightarrow> True
      | OtherException _ \<Rightarrow> True
      | Response r \<Rightarrow>
          (case r of
             JObj d \<Rightarrow>
               (case map_of d ''error'' of
                  Some _ \<Rightarrow> True
                | None \<Rightarrow> (case map_of d ''output'' of Some out \<Rightarrow> has_error_field out | None \<Rightarrow> False))
           | _ \<Rightarrow> False))"

section \<open>Chunked transcription\<close>

text \<open>
  The collaborators of the pipeline live in modules that are not among the sources
  (\<^verbatim>\<open>audio\<close>, \<^verbatim>\<open>transcription\<close>, \<^verbatim>\<open>config\<close>) or outside the repository (the models,
  the file system, the network). They are parameters. A collaborator that raises
  returns \<open>Inl\<close> with the \<^verbatim>\<open>str(e)\<close> of its exception. \<open>diarize_audio\<close> stands for
  \<^verbatim>\<open>Diarizer(...).diarize(wav_file).segments\<close>, which catches every exception itself.
\<close>

record collaborators =
  asr_model_loaded :: bool
  chunk_duration :: real
  hf_token :: "string option"
  download_audio :: "string \<Rightarrow> string + string"
  decode_base64_audio :: "string \<Rightarrow> string \<Rightarrow> string + string"
  save_upload :: "string \<Rightarrow> string + string"
  convert_audio_to_wav :: "string \<Rightarrow> string + string"
  split_audio_into_chunks :: "string \<Rightarrow> real \<Rightarrow> string + string list"
  diarize_audio :: "string \<Rightarrow> speaker_segment list"
  transcribe_audio_chunk :: "string \<Rightarrow> string option \<Rightarrow> bool \<Rightarrow> string + (string \<times> segment list)"
  format_srt :: "segment list \<Rightarrow> string"
  format_vtt :: "segment list \<Rightarrow> string"

text \<open>The work a job performs, recorded in the order it is started.\<close>

datatype event =
    DownloadAudio
  | DecodeBase64
  | SaveUpload
  | ConvertToWav
  | SplitIntoChunks
  | RunDiarization
  | TranscribeChunk string

text \<open>\<^verbatim>\<open>segment.start += offset; segment.end += offset\<close>.\<close>

definition add_offset :: "real \<Rightarrow> segment \<Rightarrow> segment" where
  "add_offset offset segment =
     segment\<lparr>seg_start := seg_start segment + offset, seg_end := seg_end segment + offset\<rparr>"

text \<open>
  The loop \<^verbatim>\<open>for i, chunk_path in enumerate(audio_chunks)\<close>, the same in the API and in
  the serverless handler. The state is the record of work, \<^verbatim>\<open>all_text\<close> and
  \<^verbatim>\<open>all_segments\<close>; an exception of the recogniser leaves the loop at once.
\<close>

fun process_chunks ::
  "collaborators \<Rightarrow> string option \<Rightarrow> bool \<Rightarrow> nat \<Rightarrow> string list
     \<Rightarrow> event list \<times> string list \<times> segment list
     \<Rightarrow> event list \<times> (string + string list \<times> segment list)" where
  "process_chunks env lang word_ts i [] (evs, all_text, all_segments) =
     (evs, Inr (all_text, all_segments))"
| "process_chunks env lang word_ts i (chunk_path # rest) (evs, all_text, all_segments) =
     (case transcribe_audio_chunk env chunk_path lang word_ts of
        Inl e \<Rightarrow> (evs @ [TranscribeChunk chunk_path], Inl e)
      | Inr (chunk_text, chunk_segments) \<Rightarrow>
          process_chunks env lang word_ts (Suc i) rest
            (evs @ [TranscribeChunk chunk_path],
             all_text @ [chunk_text],
             all_segments @
               (if i > 0 then map (add_offset (real i * chunk_duration env)) chunk_segments
                else chunk_segments)))"

text \<open>\<^verbatim>\<open>" ".join(all_text)\<close>.\<close>

fun join_space :: "string list \<Rightarrow> string" where
  "join_space [] = []"
| "join_space [t] = t"
| "join_space (t # ts) = t @ '' '' @ join_space ts"

section \<open>Serverless transcription handler\<close>

definition valid_formats :: "string list" where
  "valid_formats = [''json'', ''text'', ''srt'', ''vtt'', ''verbose_json'']"

definition starts_with :: "string \<Rightarrow> string \<Rightarrow> bool" where
  "starts_with s p = (take (length p) s = p)"

text \<open>Download or decode the audio, convert it, split it, transcribe the chunks, join the
  texts and apply the diarization segments of the request, if any: the \<^verbatim>\<open>try\<close> block of
  the handler up to the formatting.\<close>

definition handler_pipeline ::
  "collaborators \<Rightarrow> request \<Rightarrow> event list \<times> (string + string \<times> segment list)" where
  "handler_pipeline env job_input =
     (let audio_input = (case audio job_input of Some a \<Rightarrow> a | None \<Rightarrow> []);
          (evs0, fetched) =
            (if starts_with audio_input ''http://'' \<or> starts_with audio_input ''https://''
             then ([DownloadAudio], download_audio env audio_input)
             else (case audio_format job_input of
                     None \<Rightarrow> ([], Inl ''audio_format is required when using base64-encoded audio'')
                   | Some fmt \<Rightarrow>
                       if fmt = []
                       then ([], Inl ''audio_format is required when using base64-encoded audio'')
                       else ([DecodeBase64], decode_base64_audio env audio_input fmt)))
      in case fetched of
           Inl e \<Rightarrow> (evs0, Inl e)
         | Inr temp_file \<Rightarrow>
             (case convert_audio_to_wav env temp_file of
                Inl e \<Rightarrow> (evs0 @ [ConvertToWav], Inl e)
              | Inr wav_file \<Rightarrow>
                  (case split_audio_into_chunks env wav_file (chunk_duration env) of
                     Inl e \<Rightarrow> (evs0 @ [ConvertToWav, SplitIntoChunks], Inl e)
                   | Inr audio_chunks \<Rightarrow>
                       (case process_chunks env (language job_input) (word_timestamps job_input) 0
                               audio_chunks (evs0 @ [ConvertToWav, SplitIntoChunks], [], []) of
                          (evs, Inl e) \<Rightarrow> (evs, Inl e)
                        | (evs, Inr (all_text, all_segments)) \<Rightarrow>
                            (evs, Inr (join_space all_text,
                               if truthy_list (diarization_segments job_input)
                               then merge_diarization_with_transcription
                                      (case diarization_segments job_input of Some d \<Rightarrow> d | None \<Rightarrow> [])
                                      all_segments
                               else all_segments))))))"

definition segment_json :: "segment \<Rightarrow> json" where
  "segment_json seg =
     JObj [(''id'', JNum (of_int (seg_id seg))),
           (''start'', JNum (seg_start seg)),
           (''end'', JNum (seg_end seg)),
           (''text'', JStr (seg_text seg)),
           (''speaker'', json_of_option (seg_speaker seg))]"

text \<open>The formatting at the end of the handler's \<^verbatim>\<open>try\<close> block.\<close>

definition format_result :: "collaborators \<Rightarrow> request \<Rightarrow> string \<Rightarrow> segment list \<Rightarrow> json" where
  "format_result env job_input full_text all_segments =
     (if response_format job_input = ''text'' then JObj [(''text'', JStr full_text)]
      else if response_format job_input = ''srt''
        then JObj [(''text'', JStr (format_srt env all_segments))]
      else if response_format job_input = ''vtt''
        then JObj [(''text'', JStr (format_vtt env all_segments))]
      else if response_format job_input = ''verbose_json''
        then JObj [(''text'', JStr full_text),
                   (''language'', json_of_option (language job_input)),
                   (''duration'', JNum (sum_list (map (\<lambda>seg. seg_end seg - seg_start seg) all_segments))),
                   (''model'', JStr ''parakeet-tdt-0.6b-v2''),
                   (''segments'', JArr (map segment_json all_segments))]
      else JObj ([(''text'', JStr full_text)]
                 @ (if timestamps job_input \<or> truthy_list (diarization_segments job_input)
                    then [(''segments'', JArr (map segment_json all_segments))]
                    else [])))"

text \<open>\<^verbatim>\<open>', '.join(valid_formats)\<close>.\<close>

fun join_comma :: "string list \<Rightarrow> string" where
  "join_comma [] = []"
| "join_comma [t] = t"
| "join_comma (t # ts) = t @ '', '' @ join_comma ts"

text \<open>\<^verbatim>\<open>handler\<close> of \<^verbatim>\<open>runpod_handler_transcription.py\<close>: the work it starts and the
  dictionary it returns.\<close>

definition transcription_handler :: "collaborators \<Rightarrow> request \<Rightarrow> event list \<times> json" where
  "transcription_handler env job_input =
     (if \<not> truthy_str (audio job_input)
      then ([], error_result (JStr ''Missing required 'audio' field in input''))
      else if response_format job_input \<notin> set valid_formats
      then ([], error_result
                  (JStr (''Invalid response_format. Must be one of: '' @ join_comma valid_formats)))
      else
        (case handler_pipeline env job_input of
           (evs, Inl e) \<Rightarrow> (evs, error_result (JStr e))
         | (evs, Inr (full_text, all_segments)) \<Rightarrow>
             (evs, format_result env job_input full_text all_segments)))"

section \<open>Single-process API\<close>

text \<open>
  Modelled from the spec: \<^verbatim>\<open>TranscriptionResponse\<close> is declared in the module
  \<^verbatim>\<open>models\<close>, which is not among the sources; the interface section of the
  specification gives its fields as text, segments (optional), language (optional),
  duration and model.
\<close>

record transcription_response =
  resp_text :: string
  resp_segments :: "segment list option"
  resp_language :: "string option"
  resp_duration :: real
  resp_model :: string

datatype api_response =
    JSONResponse transcription_response
  | PlainTextResponse string
  | HTTPException nat string

text \<open>\<^verbatim>\<open>len(segment.text.split())\<close>: \<^verbatim>\<open>split\<close> without arguments cuts at runs of
  whitespace and drops empty words. Only the ASCII whitespace characters are modelled.\<close>

definition is_space :: "char \<Rightarrow> bool" where
  "is_space c = (let n = (of_char c :: nat) in (9 \<le> n \<and> n \<le> 13) \<or> (28 \<le> n \<and> n \<le> 32))"

fun split_words :: "string \<Rightarrow> string \<Rightarrow> string list" where
  "split_words word [] = (if word = [] then [] else [word])"
| "split_words word (c # cs) =
     (if is_space c then (if word = [] then [] else [word]) @ split_words [] cs
      else split_words (word @ [c]) cs)"

definition py_split :: "string \<Rightarrow> string list" where
  "py_split s = split_words [] s"

text \<open>The duration the API reports:
  \<^verbatim>\<open>sum(len(segment.text.split()) for segment in all_segments) / 150 if all_segments else 0\<close>.\<close>

definition estimated_duration :: "segment list \<Rightarrow> real" where
  "estimated_duration all_segments =
     (if all_segments \<noteq> []
      then real (sum_list (map (\<lambda>segment. length (py_split (seg_text segment))) all_segments)) / 150
      else 0)"

text \<open>The \<^verbatim>\<open>try\<close> block of \<^verbatim>\<open>transcribe_audio\<close> up to the response: save the upload,
  convert, split, diarize when requested and a token is configured, transcribe the
  chunks, join, align.\<close>

definition api_pipeline ::
  "collaborators \<Rightarrow> request \<Rightarrow> event list \<times> (string + string \<times> segment list)" where
  "api_pipeline env form =
     (case save_upload env (upload form) of
        Inl e \<Rightarrow> ([SaveUpload], Inl e)
      | Inr temp_file \<Rightarrow>
          (case convert_audio_to_wav env temp_file of
             Inl e \<Rightarrow> ([SaveUpload, ConvertToWav], Inl e)
           | Inr wav_file \<Rightarrow>
               (case split_audio_into_chunks env wav_file (chunk_duration env) of
                  Inl e \<Rightarrow> ([SaveUpload, ConvertToWav, SplitIntoChunks], Inl e)
                | Inr audio_chunks \<Rightarrow>
                    (let diarizer = (diarize form \<and> truthy_str (hf_token env));
                         diarization_result = (if diarizer then diarize_audio env wav_file else []);
                         evs1 = [SaveUpload, ConvertToWav, SplitIntoChunks]
                                @ (if diarizer then [RunDiarization] else [])
                     in case process_chunks env (language form) (word_timestamps form) 0
                               audio_chunks (evs1, [], []) of
                          (evs, Inl e) \<Rightarrow> (evs, Inl e)
                        | (evs, Inr (all_text, all_segments)) \<Rightarrow>
                            (evs, Inr (join_space all_text,
                               if diarizer \<and> diarization_result \<noteq> []
                               then merge_with_transcription diarization_result all_segments
                               else all_segments))))))"

text \<open>\<^verbatim>\<open>transcribe_audio\<close> of \<^verbatim>\<open>api.py\<close>. The \<^verbatim>\<open>HTTPException\<close> with status 400 of the
  last branch is raised inside the \<^verbatim>\<open>try\<close> block, so the handler
  \<^verbatim>\<open>except Exception\<close> of the same block turns it into status 500 with
  \<^verbatim>\<open>detail=str(e)\<close>.\<close>

definition transcribe_audio :: "python \<Rightarrow> collaborators \<Rightarrow> request \<Rightarrow> event list \<times> api_response" where
  "transcribe_audio py env form =
     (if \<not> asr_model_loaded env
      then ([], HTTPException 503 ''Model not loaded yet. Please try again in a few moments.'')
      else
        (case api_pipeline env form of
           (evs, Inl e) \<Rightarrow> (evs, HTTPException 500 e)
         | (evs, Inr (full_text, all_segments)) \<Rightarrow>
             (let response =
                    \<lparr>resp_text = full_text,
                     resp_segments =
                       (if timestamps form \<or> response_format form = ''verbose_json''
                        then Some all_segments else None),
                     resp_language = language form,
                     resp_duration = estimated_duration all_segments,
                     resp_model = ''parakeet-tdt-0.6b-v2''\<rparr>
              in (evs,
                  if response_format form = ''json'' then JSONResponse response
                  else if response_format form = ''text'' then PlainTextResponse full_text
                  else if response_format form = ''srt''
                    then PlainTextResponse (format_srt env all_segments)
                  else if response_format form = ''vtt''
                    then PlainTextResponse (format_vtt env all_segments)
                  else if response_format form = ''verbose_json'' then JSONResponse response
                  else HTTPException 500
                         (str_of_http_exception py 400
                            (''Unsupported response format: '' @ response_format form))))))"

section \<open>Example inputs\<close>

text \<open>The alignment example of the specification: the transcript segment \<open>[2, 4]\<close> against the
  speaker turns \<open>[1, 3]\<close> of A and \<open>[3, 5]\<close> of B, and a segment that meets neither.\<close>

definition example_diarization :: "speaker_segment list" where
  "example_diarization =
     [\<lparr>sp_start = 1, sp_end = 3, sp_speaker = ''A''\<rparr>,
      \<lparr>sp_start = 3, sp_end = 5, sp_speaker = ''B''\<rparr>]"

definition example_segment :: segment where
  "example_segment = \<lparr>seg_id = 0, seg_start = 2, seg_end = 4, seg_text = ''hello'', seg_speaker = None\<rparr>"

definition far_segment :: segment where
  "far_segment = \<lparr>seg_id = 1, seg_start = 10, seg_end = 11, seg_text = ''bye'', seg_speaker = None\<rparr>"

text \<open>The end-to-end example of the specification: three chunks of 60 seconds, one
  recognised segment at the local interval \<open>[5, 10]\<close> in each; two speaker turns for the
  diarization.\<close>

definition local_segment :: segment where
  "local_segment = \<lparr>seg_id = 0, seg_start = 5, seg_end = 10, seg_text = ''hello world'', seg_speaker = None\<rparr>"

definition example_turns :: "speaker_segment list" where
  "example_turns =
     [\<lparr>sp_start = 0, sp_end = 100, sp_speaker = ''1''\<rparr>,
      \<lparr>sp_start = 100, sp_end = 150, sp_speaker = ''2''\<rparr>]"

definition example_env :: collaborators where
  "example_env =
     \<lparr>asr_model_loaded = True,
      chunk_duration = 60,
      hf_token = Some ''hf_token'',
      download_audio = (\<lambda>url. Inr ''input_audio''),
      decode_base64_audio = (\<lambda>data fmt. Inr ''input_audio''),
      save_upload = (\<lambda>content. Inr ''upload.mp3''),
      convert_audio_to_wav = (\<lambda>path. Inr ''audio.wav''),
      split_audio_into_chunks = (\<lambda>path d. Inr [''chunk_0'', ''chunk_1'', ''chunk_2'']),
      diarize_audio = (\<lambda>path. example_turns),
      transcribe_audio_chunk = (\<lambda>path lang word_ts. Inr (''hello world'', [local_segment])),
      format_srt = (\<lambda>segs. ''srt''),
      format_vtt = (\<lambda>segs. ''vtt'')\<rparr>"

definition global_segments :: "segment list" where
  "global_segments =
     [local_segment,
      local_segment\<lparr>seg_start := 65, seg_end := 70\<rparr>,
      local_segment\<lparr>seg_start := 125, seg_end := 130\<rparr>]"

definition labelled_segments :: "segment list" where
  "labelled_segments =
     [local_segment\<lparr>seg_speaker := Some ''1''\<rparr>,
      local_segment\<lparr>seg_start := 65, seg_end := 70, seg_speaker := Some ''1''\<rparr>,
      local_segment\<lparr>seg_start := 125, seg_end := 130, seg_speaker := Some ''2''\<rparr>]"

definition example_events :: "event list" where
  "example_events = [TranscribeChunk ''chunk_0'', TranscribeChunk ''chunk_1'', TranscribeChunk ''chunk_2'']"

text \<open>An orchestrator job and two networks: one whose diarization endpoint times out, one
  whose diarization endpoint answers and whose transcription endpoint reports an error.\<close>

definition example_python :: python where
  "example_python =
     \<lparr>str_of_value = (\<lambda>v. ''<value>''),
      str_of_exception = (\<lambda>e. ''<exception>''),
      str_of_http_exception = (\<lambda>status detail. detail)\<rparr>"

definition example_endpoints :: endpoints where
  "example_endpoints =
     \<lparr>DIARIZATION_ENDPOINT = ''https://api.runpod.ai/v2/diar/runsync'',
      TRANSCRIPTION_ENDPOINT = ''https://api.runpod.ai/v2/trans/runsync''\<rparr>"

definition example_job :: request where
  "example_job =
     \<lparr>audio = Some ''https://example.com/audio.mp3'',
      audio_format = None,
      upload = ''audio.mp3'',
      language = Some ''en'',
      response_format = ''json'',
      timestamps = False,
      diarize = True,
      word_timestamps = False,
      temperature = 0,
      diarization_segments = None\<rparr>"

definition diarization_times_out :: network where
  "diarization_times_out url payload timeout =
     (if url = DIARIZATION_ENDPOINT example_endpoints then Timeout
      else Response (JObj [(''output'', JObj [(''text'', JStr ''hello world'')])]))"

definition transcription_fails :: network where
  "transcription_fails url payload timeout =
     (if url = DIARIZATION_ENDPOINT example_endpoints
      then Response (JObj [(''output'', JObj [(''segments'', JArr []), (''num_speakers'', JNum 0)])])
      else Response (JObj [(''error'', JStr ''CUDA out of memory'')]))"

section \<open>Properties of the speaker alignment\<close>

lemma merge_diarization_eq:
  "merge_diarization_with_transcription = merge_with_transcription"
  by (rule ext, rule ext)
     (simp add: merge_diarization_with_transcription_def merge_with_transcription_def)

lemma aligners_cases: "m \<in> aligners \<Longrightarrow> m = merge_with_transcription"
  by (auto simp: aligners_def merge_diarization_eq)

lemma find_overlapping_Cons:
  "find_overlapping st en (d # rest) =
     (if max st (sp_start d) < min en (sp_end d)
      then (sp_speaker d, min en (sp_end d) - max st (sp_start d)) # find_overlapping st en rest
      else find_overlapping st en rest)"
  by (simp add: Let_def)

lemma overlap_duration_pos:
  "max (seg_start s) (sp_start d) < min (seg_end s) (sp_end d) \<Longrightarrow>
   overlap_duration s d = min (seg_end s) (sp_end d) - max (seg_start s) (sp_start d)
   \<and> 0 < overlap_duration s d"
  unfolding overlap_duration_def by linarith

lemma overlap_duration_zero:
  "\<not> max (seg_start s) (sp_start d) < min (seg_end s) (sp_end d) \<Longrightarrow> overlap_duration s d = 0"
  unfolding overlap_duration_def by linarith

lemma find_overlapping_Nil_iff:
  "find_overlapping (seg_start s) (seg_end s) diar = [] \<longleftrightarrow> (\<forall>d\<in>set diar. overlap_duration s d = 0)"
proof (induction diar)
  case Nil
  show ?case by simp
next
  case (Cons d rest)
  show ?case
  proof (cases "max (seg_start s) (sp_start d) < min (seg_end s) (sp_end d)")
    case True
    then have "find_overlapping (seg_start s) (seg_end s) (d # rest) \<noteq> []"
      by (simp only: find_overlapping_Cons if_True) simp
    moreover have "overlap_duration s d \<noteq> 0"
      using overlap_duration_pos[OF True] by simp
    ultimately show ?thesis by simp
  next
    case False
    then have "find_overlapping (seg_start s) (seg_end s) (d # rest)
        = find_overlapping (seg_start s) (seg_end s) rest"
      by (simp only: find_overlapping_Cons if_False)
    moreover have "overlap_duration s d = 0"
      using False by (rule overlap_duration_zero)
    ultimately show ?thesis using Cons.IH by simp
  qed
qed

lemma hd_insort_key:
  "hd (insort_key f x ys) = (if ys = [] \<or> f x \<le> f (hd ys) then x else hd ys)"
  by (cases ys) auto

lemma first_maximumI:
  "diar = pre @ d # post \<Longrightarrow> h = (sp_speaker d, overlap_duration s d) \<Longrightarrow>
   0 < overlap_duration s d \<Longrightarrow>
   (\<And>x. x \<in> set pre \<Longrightarrow> overlap_duration s x < overlap_duration s d) \<Longrightarrow>
   (\<And>x. x \<in> set post \<Longrightarrow> overlap_duration s x \<le> overlap_duration s d) \<Longrightarrow>
   \<exists>pre d post. diar = pre @ d # post
           \<and> h = (sp_speaker d, overlap_duration s d)
           \<and> 0 < overlap_duration s d
           \<and> (\<forall>x\<in>set pre. overlap_duration s x < overlap_duration s d)
           \<and> (\<forall>x\<in>set post. overlap_duration s x \<le> overlap_duration s d)"
  by (intro exI[of _ pre] exI[of _ d] exI[of _ post] conjI ballI) assumption+

lemma first_maximum:
  assumes "find_overlapping (seg_start s) (seg_end s) diar \<noteq> []"
  shows "\<exists>pre d post. diar = pre @ d # post
           \<and> hd (sort_reverse (find_overlapping (seg_start s) (seg_end s) diar))
               = (sp_speaker d, overlap_duration s d)
           \<and> 0 < overlap_duration s d
           \<and> (\<forall>x\<in>set pre. overlap_duration s x < overlap_duration s d)
           \<and> (\<forall>x\<in>set post. overlap_duration s x \<le> overlap_duration s d)"
  using assms
proof (induction diar)
  case Nil
  then show ?case by simp
next
  case (Cons d0 rest)
  let ?ov = "find_overlapping (seg_start s) (seg_end s)"
  show ?case
  proof (cases "max (seg_start s) (sp_start d0) < min (seg_end s) (sp_end d0)")
    case pos: True
    from overlap_duration_pos[OF pos]
    have od0: "overlap_duration s d0 = min (seg_end s) (sp_end d0) - max (seg_start s) (sp_start d0)"
      and pos0: "0 < overlap_duration s d0"
      by blast+
    have "?ov (d0 # rest) = (sp_speaker d0, overlap_duration s d0) # ?ov rest"
      using pos by (simp only: find_overlapping_Cons if_True od0)
    then have sorted_eq: "sort_reverse (?ov (d0 # rest))
        = insort_key (\<lambda>x. - snd x) (sp_speaker d0, overlap_duration s d0) (sort_reverse (?ov rest))"
      by (simp only: sort_reverse_def sort_key_simps)
    show ?thesis
    proof (cases "?ov rest = []")
      case True
      then have zero: "\<And>x. x \<in> set rest \<Longrightarrow> overlap_duration s x = 0"
        by (simp add: find_overlapping_Nil_iff)
      have "sort_reverse (?ov rest) = []"
        unfolding True sort_reverse_def by simp
      then have "sort_reverse (?ov (d0 # rest)) = [(sp_speaker d0, overlap_duration s d0)]"
        by (simp only: sorted_eq insort_key.simps)
      then have hd0: "hd (sort_reverse (?ov (d0 # rest))) = (sp_speaker d0, overlap_duration s d0)"
        by (simp only: list.sel)
      show ?thesis
      proof (rule first_maximumI[of _ "[]" d0 rest])
        show "d0 # rest = [] @ d0 # rest" by simp
        show "hd (sort_reverse (?ov (d0 # rest))) = (sp_speaker d0, overlap_duration s d0)"
          by (rule hd0)
        show "0 < overlap_duration s d0" by (rule pos0)
        show "overlap_duration s x < overlap_duration s d0" if "x \<in> set []" for x
          using that by simp
        show "overlap_duration s x \<le> overlap_duration s d0" if "x \<in> set rest" for x
          using zero[OF that] pos0 by simp
      qed
    next
      case False
      from Cons.IH[OF False] obtain pre d post where
        dec: "rest = pre @ d # post"
        and h: "hd (sort_reverse (?ov rest)) = (sp_speaker d, overlap_duration s d)"
        and posd: "0 < overlap_duration s d"
        and before: "\<And>x. x \<in> set pre \<Longrightarrow> overlap_duration s x < overlap_duration s d"
        and after: "\<And>x. x \<in> set post \<Longrightarrow> overlap_duration s x \<le> overlap_duration s d"
        by blast
      have "length (sort_reverse (?ov rest)) \<noteq> 0"
        using False unfolding sort_reverse_def by simp
      then have ne: "sort_reverse (?ov rest) \<noteq> []"
        by simp
      have "hd (sort_reverse (?ov (d0 # rest))) =
          (if sort_reverse (?ov rest) = [] \<or>
              - snd (sp_speaker d0, overlap_duration s d0) \<le> - snd (sp_speaker d, overlap_duration s d)
           then (sp_speaker d0, overlap_duration s d0) else (sp_speaker d, overlap_duration s d))"
        by (simp only: sorted_eq hd_insort_key h)
      then have hd_eq: "hd (sort_reverse (?ov (d0 # rest))) =
          (if overlap_duration s d \<le> overlap_duration s d0
           then (sp_speaker d0, overlap_duration s d0) else (sp_speaker d, overlap_duration s d))"
        by (simp only: ne snd_conv neg_le_iff_le simp_thms)
      show ?thesis
      proof (cases "overlap_duration s d \<le> overlap_duration s d0")
        case True
        show ?thesis
        proof (rule first_maximumI[of _ "[]" d0 rest])
          show "d0 # rest = [] @ d0 # rest" by simp
          show "hd (sort_reverse (?ov (d0 # rest))) = (sp_speaker d0, overlap_duration s d0)"
            using hd_eq True by simp
          show "0 < overlap_duration s d0" by (rule pos0)
          show "overlap_duration s x < overlap_duration s d0" if "x \<in> set []" for x
            using that by simp
          show "overlap_duration s x \<le> overlap_duration s d0" if "x \<in> set rest" for x
          proof -
            from that dec consider "x \<in> set pre" | "x = d" | "x \<in> set post" by auto
            then have "overlap_duration s x \<le> overlap_duration s d"
            proof cases
              case 1
              from before[OF 1] show ?thesis by (rule less_imp_le)
            next
              case 2
              then show ?thesis by simp
            next
              case 3
              then show ?thesis by (rule after)
            qed
            with True show ?thesis by linarith
          qed
        qed
      next
        case False
        show ?thesis
        proof (rule first_maximumI[of _ "d0 # pre" d post])
          show "d0 # rest = (d0 # pre) @ d # post" using dec by simp
          show "hd (sort_reverse (?ov (d0 # rest))) = (sp_speaker d, overlap_duration s d)"
            using hd_eq False by simp
          show "0 < overlap_duration s d" by (rule posd)
          show "overlap_duration s x < overlap_duration s d" if "x \<in> set (d0 # pre)" for x
          proof -
            from that consider "x = d0" | "x \<in> set pre" by auto
            then show ?thesis
            proof cases
              case 1
              with False show ?thesis by simp
            next
              case 2
              then show ?thesis by (rule before)
            qed
          qed
          show "overlap_duration s x \<le> overlap_duration s d" if "x \<in> set post" for x
            using that by (rule after)
        qed
      qed
    qed
  next
    case neg: False
    then have od0: "overlap_duration s d0 = 0"
      by (rule overlap_duration_zero)
    have same: "?ov (d0 # rest) = ?ov rest"
      using neg by (simp only: find_overlapping_Cons if_False)
    have "?ov rest \<noteq> []" using Cons.prems unfolding same .
    from Cons.IH[OF this] obtain pre d post where
      dec: "rest = pre @ d # post"
      and h: "hd (sort_reverse (?ov rest)) = (sp_speaker d, overlap_duration s d)"
      and posd: "0 < overlap_duration s d"
      and before: "\<And>x. x \<in> set pre \<Longrightarrow> overlap_duration s x < overlap_duration s d"
      and after: "\<And>x. x \<in> set post \<Longrightarrow> overlap_duration s x \<le> overlap_duration s d"
      by blast
    show ?thesis
    proof (rule first_maximumI[of _ "d0 # pre" d post])
      show "d0 # rest = (d0 # pre) @ d # post" using dec by simp
      show "hd (sort_reverse (?ov (d0 # rest))) = (sp_speaker d, overlap_duration s d)"
        unfolding same by (rule h)
      show "0 < overlap_duration s d" by (rule posd)
      show "overlap_duration s x < overlap_duration s d" if "x \<in> set (d0 # pre)" for x
      proof -
        from that consider "x = d0" | "x \<in> set pre" by auto
        then show ?thesis
        proof cases
          case 1
          with od0 posd show ?thesis by simp
        next
          case 2
          then show ?thesis by (rule before)
        qed
      qed
      show "overlap_duration s x \<le> overlap_duration s d" if "x \<in> set post" for x
        using that by (rule after)
    qed
  qed
qed

lemma dominant_speaker_hd:
  "find_overlapping (seg_start s) (seg_end s) diar \<noteq> [] \<Longrightarrow>
   dominant_speaker diar s = fst (hd (sort_reverse (find_overlapping (seg_start s) (seg_end s) diar)))"
proof -
  assume ne: "find_overlapping (seg_start s) (seg_end s) diar \<noteq> []"
  then have "length (sort_reverse (find_overlapping (seg_start s) (seg_end s) diar)) \<noteq> 0"
    unfolding sort_reverse_def by simp
  then have "sort_reverse (find_overlapping (seg_start s) (seg_end s) diar) \<noteq> []"
    by simp
  then obtain a as where "sort_reverse (find_overlapping (seg_start s) (seg_end s) diar) = a # as"
    by (cases "sort_reverse (find_overlapping (seg_start s) (seg_end s) diar)") auto
  with ne show ?thesis by (simp add: dominant_speaker_def)
qed

lemma dominant_speaker_unknown:
  "find_overlapping (seg_start s) (seg_end s) diar = [] \<Longrightarrow> dominant_speaker diar s = ''unknown''"
  by (simp add: dominant_speaker_def)

lemma merge_nth:
  "diar \<noteq> [] \<Longrightarrow> i < length segs \<Longrightarrow>
   merge_with_transcription diar segs ! i = (segs ! i)\<lparr>seg_speaker := Some (dominant_speaker diar (segs ! i))\<rparr>"
  by (simp add: merge_with_transcription_def)

text \<open>
  Claim C1, as amended. For either aligner, a non-empty diarization list and a transcript
  segment that overlaps at least one diarization segment for a positive duration, the
  label written is that of the diarization segment with the largest overlap duration, and
  among several of the same largest overlap that of the first in list order: every
  segment before the chosen one has a strictly smaller overlap, every one after it has
  at most the same.
\<close>

theorem alignment_largest_overlap_first:
  assumes "m \<in> aligners" and "diar \<noteq> []" and "i < length segs"
    and "\<exists>d\<in>set diar. 0 < overlap_duration (segs ! i) d"
  shows "\<exists>pre d post. diar = pre @ d # post
           \<and> seg_speaker (m diar segs ! i) = Some (sp_speaker d)
           \<and> (\<forall>x\<in>set pre. overlap_duration (segs ! i) x < overlap_duration (segs ! i) d)
           \<and> (\<forall>x\<in>set post. overlap_duration (segs ! i) x \<le> overlap_duration (segs ! i) d)"
proof -
  let ?s = "segs ! i"
  have m: "m = merge_with_transcription" using assms(1) by (rule aligners_cases)
  from assms(4) obtain d0 where "d0 \<in> set diar" and "overlap_duration ?s d0 \<noteq> 0" by force
  then have ne: "find_overlapping (seg_start ?s) (seg_end ?s) diar \<noteq> []"
    unfolding find_overlapping_Nil_iff by blast
  from first_maximum[OF ne] obtain pre d post where
    dec: "diar = pre @ d # post"
    and h: "hd (sort_reverse (find_overlapping (seg_start ?s) (seg_end ?s) diar))
              = (sp_speaker d, overlap_duration ?s d)"
    and before: "\<forall>x\<in>set pre. overlap_duration ?s x < overlap_duration ?s d"
    and after: "\<forall>x\<in>set post. overlap_duration ?s x \<le> overlap_duration ?s d"
    by blast
  have "dominant_speaker diar ?s = sp_speaker d"
    unfolding dominant_speaker_hd[OF ne] h by simp
  then have "seg_speaker (m diar segs ! i) = Some (sp_speaker d)"
    unfolding m merge_nth[OF assms(2,3)] by simp
  with dec before after show ?thesis by blast
qed

lemma aligner_in: "merge_with_transcription \<in> aligners" "merge_diarization_with_transcription \<in> aligners"
  by (simp_all add: aligners_def)

lemma example_speaker:
  "seg_speaker (merge_with_transcription example_diarization [example_segment] ! 0) = Some ''A''"
  by (simp add: merge_with_transcription_def example_diarization_def example_segment_def
      dominant_speaker_def sort_reverse_def)

text \<open>The example of the specification satisfies the hypotheses of C1.\<close>

theorem alignment_largest_overlap_first_witness:
  "example_diarization \<noteq> []
   \<and> (\<exists>d\<in>set example_diarization. 0 < overlap_duration ([example_segment] ! 0) d)
   \<and> (\<exists>pre d post. example_diarization = pre @ d # post
        \<and> seg_speaker (merge_with_transcription example_diarization [example_segment] ! 0)
            = Some (sp_speaker d)
        \<and> (\<forall>x\<in>set pre. overlap_duration ([example_segment] ! 0) x
                             < overlap_duration ([example_segment] ! 0) d)
        \<and> (\<forall>x\<in>set post. overlap_duration ([example_segment] ! 0) x
                             \<le> overlap_duration ([example_segment] ! 0) d))"
proof -
  have ne: "example_diarization \<noteq> []"
    by (simp add: example_diarization_def)
  have i: "0 < length [example_segment]"
    by simp
  have pos: "\<exists>d\<in>set example_diarization. 0 < overlap_duration ([example_segment] ! 0) d"
    by (simp add: example_diarization_def example_segment_def overlap_duration_def)
  from alignment_largest_overlap_first[OF aligner_in(1) ne i pos] ne pos
  show ?thesis by (intro conjI)
qed

text \<open>
  C1 as first stated has no hypothesis on the overlap. With a single diarization segment
  \<open>[0, 5]\<close> of speaker A, that segment has the largest overlap (0) with the transcript
  segment \<open>[10, 11]\<close>, yet the label written is the sentinel and not A.
\<close>

theorem alignment_no_overlap_counterexample:
  "seg_speaker (merge_with_transcription [\<lparr>sp_start = 0, sp_end = 5, sp_speaker = ''A''\<rparr>] [far_segment] ! 0)
     = Some ''unknown''
   \<and> Some ''unknown'' \<noteq> Some (sp_speaker \<lparr>sp_start = 0, sp_end = 5, sp_speaker = ''A''\<rparr>)"
  by (simp add: merge_with_transcription_def far_segment_def dominant_speaker_def sort_reverse_def)

text \<open>
  Claim C5. With an empty diarization list either aligner returns the segments
  unchanged; with a non-empty one every returned segment carries a speaker, and a
  segment whose overlap with every diarization segment is 0 carries exactly
  \<open>''unknown''\<close>.
\<close>

theorem alignment_writes_iff_diarization:
  assumes "m \<in> aligners"
  shows "m [] segs = segs
    \<and> (diar \<noteq> [] \<longrightarrow> (\<forall>s\<in>set (m diar segs). seg_speaker s \<noteq> None))
    \<and> (diar \<noteq> [] \<longrightarrow> (\<forall>i<length segs. (\<forall>d\<in>set diar. overlap_duration (segs ! i) d = 0)
          \<longrightarrow> seg_speaker (m diar segs ! i) = Some ''unknown''))"
proof -
  have m: "m = merge_with_transcription" using assms by (rule aligners_cases)
  have a: "m [] segs = segs"
    unfolding m by (simp add: merge_with_transcription_def)
  have b: "\<forall>s\<in>set (m diar segs). seg_speaker s \<noteq> None" if "diar \<noteq> []"
    unfolding m using that by (auto simp: merge_with_transcription_def)
  have c: "seg_speaker (m diar segs ! i) = Some ''unknown''"
    if "diar \<noteq> []" "i < length segs" "\<forall>d\<in>set diar. overlap_duration (segs ! i) d = 0" for i
  proof -
    have "find_overlapping (seg_start (segs ! i)) (seg_end (segs ! i)) diar = []"
      unfolding find_overlapping_Nil_iff using that(3) .
    then have "dominant_speaker diar (segs ! i) = ''unknown''"
      by (rule dominant_speaker_unknown)
    then show ?thesis
      unfolding m merge_nth[OF that(1,2)] by simp
  qed
  from a b c show ?thesis by blast
qed

text \<open>C5 at the segment \<open>[10, 11]\<close>, without and with the two speaker turns of the example.\<close>

theorem alignment_writes_iff_diarization_witness:
  "merge_diarization_with_transcription [] [far_segment] = [far_segment]
   \<and> seg_speaker (far_segment) = None
   \<and> example_diarization \<noteq> []
   \<and> overlap_duration far_segment (example_diarization ! 0) = 0
   \<and> overlap_duration far_segment (example_diarization ! 1) = 0
   \<and> seg_speaker (merge_diarization_with_transcription example_diarization [far_segment] ! 0)
       = Some ''unknown''"
proof -
  have ne: "example_diarization \<noteq> []"
    by (simp add: example_diarization_def)
  have z: "\<forall>d\<in>set example_diarization. overlap_duration ([far_segment] ! 0) d = 0"
    by (simp add: example_diarization_def far_segment_def overlap_duration_def)
  have n: "seg_speaker far_segment = None"
    by (simp add: far_segment_def)
  have z': "overlap_duration far_segment (example_diarization ! 0) = 0"
      "overlap_duration far_segment (example_diarization ! 1) = 0"
    by (simp_all add: example_diarization_def far_segment_def overlap_duration_def)
  from alignment_writes_iff_diarization[OF aligner_in(2), of "[far_segment]" example_diarization]
    ne z n z' show ?thesis by simp
qed

text \<open>
  Claim C9. Either aligner returns a sequence of the same length whose segment at each
  position has the id, start, end and text of the input segment at that position, and is
  either the input segment itself or the input segment with its speaker field set once.
\<close>

theorem alignment_frame:
  assumes "m \<in> aligners"
  shows "length (m diar segs) = length segs
    \<and> (\<forall>i<length segs.
          seg_id (m diar segs ! i) = seg_id (segs ! i)
        \<and> seg_start (m diar segs ! i) = seg_start (segs ! i)
        \<and> seg_end (m diar segs ! i) = seg_end (segs ! i)
        \<and> seg_text (m diar segs ! i) = seg_text (segs ! i)
        \<and> (m diar segs ! i = segs ! i
            \<or> (\<exists>label. m diar segs ! i = (segs ! i)\<lparr>seg_speaker := Some label\<rparr>)))"
proof -
  have m: "m = merge_with_transcription" using assms by (rule aligners_cases)
  show ?thesis
  proof (cases "diar = []")
    case True
    then show ?thesis unfolding m by (simp add: merge_with_transcription_def)
  next
    case False
    have "length (merge_with_transcription diar segs) = length segs"
      by (simp add: merge_with_transcription_def)
    then show ?thesis unfolding m by (auto simp add: merge_nth[OF False])
  qed
qed

text \<open>C9 at the two example segments.\<close>

theorem alignment_frame_witness:
  "length (merge_with_transcription example_diarization [example_segment, far_segment]) = 2
   \<and> merge_with_transcription example_diarization [example_segment, far_segment]
       = [example_segment\<lparr>seg_speaker := Some ''A''\<rparr>, far_segment\<lparr>seg_speaker := Some ''unknown''\<rparr>]"
proof -
  have "merge_with_transcription example_diarization [example_segment, far_segment]
       = [example_segment\<lparr>seg_speaker := Some ''A''\<rparr>, far_segment\<lparr>seg_speaker := Some ''unknown''\<rparr>]"
    by (simp add: merge_with_transcription_def example_diarization_def example_segment_def
      far_segment_def dominant_speaker_def sort_reverse_def)
  with alignment_frame[OF aligner_in(1), of example_diarization "[example_segment, far_segment]"]
  show ?thesis by simp
qed

section \<open>Properties of the chunk loop\<close>

text \<open>
  The collaborator is assumed to return distinct segment objects, so that the in-place
  additions of the loop are the value-level shift of each returned segment.
\<close>

lemma process_chunks_run:
  assumes "map (\<lambda>c. transcribe_audio_chunk env c lang wt) chunks = map Inr results"
  shows "process_chunks env lang wt i chunks (evs, T, S) =
     (evs @ map TranscribeChunk chunks,
      Inr (T @ map fst results,
           S @ concat (map (\<lambda>(k, r). if k > 0
                                      then map (add_offset (real k * chunk_duration env)) (snd r)
                                      else snd r)
                         (enumerate i results))))"
  using assms
proof (induction chunks arbitrary: i results evs T S)
  case Nil
  then show ?case by simp
next
  case (Cons c rest)
  from Cons.prems obtain r rs where results: "results = r # rs"
    by (cases results) auto
  with Cons.prems have c: "transcribe_audio_chunk env c lang wt = Inr r"
    and rest: "map (\<lambda>c. transcribe_audio_chunk env c lang wt) rest = map Inr rs"
    by simp_all
  obtain chunk_text chunk_segments where r: "r = (chunk_text, chunk_segments)"
    by (cases r)
  show ?case
    unfolding results
    by (simp add: c r Cons.IH[OF rest])
qed

text \<open>
  Claim C2. When the recogniser answers every chunk, the loop (started at index 0 with
  empty accumulators, as both the API and the serverless handler start it) returns the
  chunk texts in order and the concatenation of the chunk segment lists, where the
  segments of chunk \<open>i > 0\<close> have \<open>i * chunk_duration\<close> added to both start and end and
  the segments of chunk 0 are unchanged.
\<close>

theorem chunk_offsets:
  assumes "map (\<lambda>c. transcribe_audio_chunk env c lang wt) chunks = map Inr results"
  shows "snd (process_chunks env lang wt 0 chunks (evs, [], [])) =
     Inr (map fst results,
          concat (map (\<lambda>(i, r). if i > 0
                       then map (\<lambda>s. s\<lparr>seg_start := seg_start s + real i * chunk_duration env,
                                       seg_end := seg_end s + real i * chunk_duration env\<rparr>) (snd r)
                       else snd r)
                  (enumerate 0 results)))"
proof -
  have shift: "add_offset off = (\<lambda>s. s\<lparr>seg_start := seg_start s + off, seg_end := seg_end s + off\<rparr>)"
    for off
    by (rule ext) (simp add: add_offset_def)
  show ?thesis
    unfolding process_chunks_run[OF assms] shift by simp
qed

text \<open>C2 at the end-to-end example: chunk duration 60, local segments \<open>[5, 10]\<close>, global
  segments \<open>[5, 10]\<close>, \<open>[65, 70]\<close>, \<open>[125, 130]\<close>.\<close>

theorem chunk_offsets_witness:
  "snd (process_chunks example_env None False 0 [''chunk_0'', ''chunk_1'', ''chunk_2''] ([], [], [])) =
     Inr ([''hello world'', ''hello world'', ''hello world''],
          [local_segment\<lparr>seg_start := 5, seg_end := 10\<rparr>,
           local_segment\<lparr>seg_start := 65, seg_end := 70\<rparr>,
           local_segment\<lparr>seg_start := 125, seg_end := 130\<rparr>])"
proof -
  have "map (\<lambda>c. transcribe_audio_chunk example_env c None False) [''chunk_0'', ''chunk_1'', ''chunk_2'']
      = map Inr [(''hello world'', [local_segment]), (''hello world'', [local_segment]),
                 (''hello world'', [local_segment])]"
    by (simp add: example_env_def)
  from chunk_offsets[OF this, of "[]"] show ?thesis
    by (simp add: example_env_def local_segment_def)
qed

section \<open>Properties of the orchestrator\<close>

lemma py_in_JObj: "py_in key (JObj d) = Inr (map_of d key \<noteq> None)"
  by (simp add: py_in_def)

lemma py_getitem_JObj:
  "map_of d key = Some x \<Longrightarrow> py_getitem (JObj d) key = Inr x"
  by (simp add: py_getitem_def)

lemma call_failed_error:
  assumes "call_failed (post url payload timeout)"
  shows "\<exists>d err. call_runpod_endpoint py post url payload timeout = JObj d
            \<and> map_of d ''error'' = Some err"
proof (cases "post url payload timeout")
  case Timeout
  then show ?thesis by (simp add: call_runpod_endpoint_def error_result_def)
next
  case (RequestException e)
  then show ?thesis by (simp add: call_runpod_endpoint_def error_result_def)
next
  case (OtherException e)
  then show ?thesis by (simp add: call_runpod_endpoint_def error_result_def)
next
  case (Response r)
  with assms obtain d where r: "r = JObj d"
    by (cases r) (simp_all add: call_failed_def)
  show ?thesis
  proof (cases "map_of d ''error''")
    case (Some err)
    then have "extract_output r = Inr (error_result err)"
      by (simp add: extract_output_def r py_in_JObj py_getitem_JObj)
    then show ?thesis
      by (simp add: call_runpod_endpoint_def Response error_result_def)
  next
    case None
    with assms Response r obtain out where out: "map_of d ''output'' = Some out"
      and "has_error_field out"
      by (cases "map_of d ''output''") (simp_all add: call_failed_def)
    then obtain d' err where "out = JObj d'" and "map_of d' ''error'' = Some err"
      by (cases out) (auto simp: has_error_field_def)
    moreover have "extract_output r = Inr out"
      by (simp add: extract_output_def r py_in_JObj py_getitem_JObj None out)
    ultimately show ?thesis
      by (simp add: call_runpod_endpoint_def Response)
  qed
qed

lemma diarization_step_soft:
  assumes "diarize job_input"
    and "call_failed (post (DIARIZATION_ENDPOINT cfg) (diar_payload job_input) 600)"
  shows "diarization_step py cfg post job_input =
           ([(DIARIZATION_ENDPOINT cfg, diar_payload job_input, 600)], Inr None)"
proof -
  from call_failed_error[where post = post and url = "DIARIZATION_ENDPOINT cfg"
      and payload = "diar_payload job_input" and timeout = 600 and py = py, OF assms(2)]
  obtain d err where
    "call_runpod_endpoint py post (DIARIZATION_ENDPOINT cfg) (diar_payload job_input) 600 = JObj d"
    and "map_of d ''error'' = Some err"
    by blast
  then show ?thesis
    using assms(1) by (simp add: diarization_step_def py_in_JObj py_getitem_JObj)
qed

lemma job_result_ok:
  "map_of r ''error'' = None \<Longrightarrow> job_result py (JObj r) = JObj r"
  by (simp add: job_result_def py_in_JObj)

lemma job_result_error:
  "map_of d ''error'' = Some err \<Longrightarrow>
   job_result py (JObj d) = JObj [(''error'', JStr (''Transcription failed: '' @ format_value py err))]"
  by (simp add: job_result_def py_in_JObj py_getitem_JObj error_result_def)

text \<open>
  Claim C3. For a job with audio and diarization enabled whose diarization call fails
  (timeout, transport error or other exception, error field in the response), the
  orchestrator makes exactly the diarization call and then the transcription call; the
  transcription payload has no \<open>diarization_segments\<close> entry; the job's result is what
  steps 2 and 3 make of the transcription call alone, and it is the transcription
  service's answer itself whenever that answer is a dictionary without an error field.
\<close>

theorem diarization_failure_is_soft:
  assumes "truthy_str (audio job_input)" and "diarize job_input"
    and "call_failed (post (DIARIZATION_ENDPOINT cfg) (diar_payload job_input) 600)"
  shows "fst (orchestrator_handler py cfg post job_input) =
           [(DIARIZATION_ENDPOINT cfg, diar_payload job_input, 600),
            (TRANSCRIPTION_ENDPOINT cfg, trans_payload job_input None, 900)]
       \<and> trans_payload job_input None = JObj [(''input'', JObj (trans_input job_input None))]
       \<and> map_of (trans_input job_input None) ''diarization_segments'' = None
       \<and> snd (orchestrator_handler py cfg post job_input) =
           job_result py (call_runpod_endpoint py post (TRANSCRIPTION_ENDPOINT cfg)
                            (trans_payload job_input None) 900)
       \<and> (\<forall>r. call_runpod_endpoint py post (TRANSCRIPTION_ENDPOINT cfg)
                  (trans_payload job_input None) 900 = JObj r
               \<and> map_of r ''error'' = None
             \<longrightarrow> snd (orchestrator_handler py cfg post job_input) = JObj r)"
proof -
  have h: "orchestrator_handler py cfg post job_input =
      ([(DIARIZATION_ENDPOINT cfg, diar_payload job_input, 600),
        (TRANSCRIPTION_ENDPOINT cfg, trans_payload job_input None, 900)],
       job_result py (call_runpod_endpoint py post (TRANSCRIPTION_ENDPOINT cfg)
                        (trans_payload job_input None) 900))"
    using assms(1)
    by (simp add: orchestrator_handler_def
        diarization_step_soft[where post = post and cfg = cfg and job_input = job_input, OF assms(2,3)])
  have p: "map_of (trans_input job_input None) ''diarization_segments'' = None"
    by (simp add: trans_input_def)
  show ?thesis
    unfolding h by (simp add: p trans_payload_def job_result_ok)
qed

text \<open>C3 at a diarization timeout followed by a successful transcription.\<close>

theorem diarization_failure_is_soft_witness:
  "truthy_str (audio example_job) \<and> diarize example_job
   \<and> call_failed (diarization_times_out (DIARIZATION_ENDPOINT example_endpoints) (diar_payload example_job) 600)
   \<and> fst (orchestrator_handler example_python example_endpoints diarization_times_out example_job) =
        [(DIARIZATION_ENDPOINT example_endpoints, diar_payload example_job, 600),
         (TRANSCRIPTION_ENDPOINT example_endpoints, trans_payload example_job None, 900)]
   \<and> snd (orchestrator_handler example_python example_endpoints diarization_times_out example_job) =
        JObj [(''text'', JStr ''hello world'')]"
proof -
  have a: "truthy_str (audio example_job)" and d: "diarize example_job"
    by (simp_all add: example_job_def truthy_str_def)
  have f: "call_failed (diarization_times_out (DIARIZATION_ENDPOINT example_endpoints)
             (diar_payload example_job) 600)"
    by (simp add: diarization_times_out_def call_failed_def)
  have t: "call_runpod_endpoint example_python diarization_times_out
             (TRANSCRIPTION_ENDPOINT example_endpoints) (trans_payload example_job None) 900
           = JObj [(''text'', JStr ''hello world'')]"
    by (simp add: call_runpod_endpoint_def diarization_times_out_def example_endpoints_def
        extract_output_def py_in_JObj py_getitem_JObj)
  from diarization_failure_is_soft[where post = diarization_times_out and cfg = example_endpoints
      and job_input = example_job and py = example_python, OF a d f] a d f t
  show ?thesis by (simp add: job_result_ok)
qed

text \<open>
  Claim C4, as amended. For a job with audio whose step 1 has ended (with or without a
  diarization result) and whose transcription call fails, the call yields a dictionary
  with an error field and the job's result is the error dictionary whose message is
  \<open>''Transcription failed: ''\<close> followed by that error as an f-string prints it.
\<close>

theorem transcription_failure_is_prefixed:
  assumes "truthy_str (audio job_input)"
    and "diarization_step py cfg post job_input = (calls, Inr diarization_result)"
    and "call_failed (post (TRANSCRIPTION_ENDPOINT cfg) (trans_payload job_input diarization_result) 900)"
  shows "\<exists>d err.
           call_runpod_endpoint py post (TRANSCRIPTION_ENDPOINT cfg)
             (trans_payload job_input diarization_result) 900 = JObj d
         \<and> map_of d ''error'' = Some err
         \<and> snd (orchestrator_handler py cfg post job_input) =
             JObj [(''error'', JStr (''Transcription failed: '' @ format_value py err))]"
proof -
  from call_failed_error[where post = post and url = "TRANSCRIPTION_ENDPOINT cfg"
      and payload = "trans_payload job_input diarization_result" and timeout = 900 and py = py,
      OF assms(3)]
  obtain d err where
    d: "call_runpod_endpoint py post (TRANSCRIPTION_ENDPOINT cfg)
          (trans_payload job_input diarization_result) 900 = JObj d"
    and err: "map_of d ''error'' = Some err"
    by blast
  have "snd (orchestrator_handler py cfg post job_input) =
          JObj [(''error'', JStr (''Transcription failed: '' @ format_value py err))]"
    using assms(1) by (simp add: orchestrator_handler_def assms(2) d job_result_error[OF err])
  with d err show ?thesis by blast
qed

lemma example_truthy: "truthy_str (audio example_job)"
  "truthy_str (audio (example_job\<lparr>response_format := fmt, diarization_segments := ds\<rparr>))"
  "asr_model_loaded example_env"
  by (simp_all add: example_job_def truthy_str_def example_env_def)

lemma example_diarization_step:
  "diarization_step example_python example_endpoints transcription_fails example_job =
     ([(DIARIZATION_ENDPOINT example_endpoints, diar_payload example_job, 600)],
      Inr (Some [(''segments'', JArr []), (''num_speakers'', JNum 0)]))"
  by (simp add: diarization_step_def call_runpod_endpoint_def transcription_fails_def
      example_job_def extract_output_def py_in_JObj py_getitem_JObj)

lemma example_transcription_call:
  "call_runpod_endpoint example_python transcription_fails (TRANSCRIPTION_ENDPOINT example_endpoints)
     payload 900 = JObj [(''error'', JStr ''CUDA out of memory'')]"
  by (simp add: call_runpod_endpoint_def transcription_fails_def example_endpoints_def
      extract_output_def py_in_JObj py_getitem_JObj error_result_def)

text \<open>The amended C4 at a successful diarization followed by a failed transcription.\<close>

theorem transcription_failure_is_prefixed_witness:
  "truthy_str (audio example_job)
   \<and> diarization_step example_python example_endpoints transcription_fails example_job =
       ([(DIARIZATION_ENDPOINT example_endpoints, diar_payload example_job, 600)],
        Inr (Some [(''segments'', JArr []), (''num_speakers'', JNum 0)]))
   \<and> call_failed (transcription_fails (TRANSCRIPTION_ENDPOINT example_endpoints)
        (trans_payload example_job (Some [(''segments'', JArr []), (''num_speakers'', JNum 0)])) 900)
   \<and> (\<exists>d err.
         call_runpod_endpoint example_python transcription_fails (TRANSCRIPTION_ENDPOINT example_endpoints)
           (trans_payload example_job (Some [(''segments'', JArr []), (''num_speakers'', JNum 0)])) 900
           = JObj d
       \<and> map_of d ''error'' = Some err
       \<and> snd (orchestrator_handler example_python example_endpoints transcription_fails example_job) =
           JObj [(''error'', JStr (''Transcription failed: '' @ format_value example_python err))])"
proof -
  have f: "call_failed (transcription_fails (TRANSCRIPTION_ENDPOINT example_endpoints)
        (trans_payload example_job (Some [(''segments'', JArr []), (''num_speakers'', JNum 0)])) 900)"
    by (simp add: transcription_fails_def example_endpoints_def call_failed_def)
  from transcription_failure_is_prefixed[where post = transcription_fails
      and cfg = example_endpoints and job_input = example_job and py = example_python,
      OF example_truthy(1) example_diarization_step f]
    example_truthy(1) example_diarization_step f
  show ?thesis by (intro conjI)
qed

text \<open>
  C4 as first stated asks for the transcription service's error verbatim. Here the
  service's error is \<open>''CUDA out of memory''\<close> and the job returns it with the prefix.
\<close>

theorem transcription_error_not_verbatim_counterexample:
  "call_runpod_endpoint example_python transcription_fails (TRANSCRIPTION_ENDPOINT example_endpoints)
     (trans_payload example_job (Some [(''segments'', JArr []), (''num_speakers'', JNum 0)])) 900
     = JObj [(''error'', JStr ''CUDA out of memory'')]
   \<and> snd (orchestrator_handler example_python example_endpoints transcription_fails example_job)
     = JObj [(''error'', JStr ''Transcription failed: CUDA out of memory'')]
   \<and> snd (orchestrator_handler example_python example_endpoints transcription_fails example_job)
     \<noteq> JObj [(''error'', JStr ''CUDA out of memory'')]"
proof -
  have "snd (orchestrator_handler example_python example_endpoints transcription_fails example_job)
     = JObj [(''error'', JStr ''Transcription failed: CUDA out of memory'')]"
    using example_truthy(1)
    by (simp add: orchestrator_handler_def example_diarization_step example_transcription_call
        job_result_error format_value_def)
  then show ?thesis
    by (simp add: example_transcription_call)
qed

section \<open>Properties of the response formats\<close>

lemma example_chunks:
  "process_chunks example_env lang wt 0 [''chunk_0'', ''chunk_1'', ''chunk_2''] (evs, [], []) =
     (evs @ example_events,
      Inr ([''hello world'', ''hello world'', ''hello world''], global_segments))"
proof -
  have "map (\<lambda>c. transcribe_audio_chunk example_env c lang wt) [''chunk_0'', ''chunk_1'', ''chunk_2'']
      = map Inr [(''hello world'', [local_segment]), (''hello world'', [local_segment]),
                 (''hello world'', [local_segment])]"
    by (simp add: example_env_def)
  from process_chunks_run[OF this, of 0 evs "[]" "[]"] show ?thesis
    by (simp add: example_env_def local_segment_def global_segments_def example_events_def
        add_offset_def)
qed

lemma example_alignment:
  "merge_with_transcription example_turns global_segments = labelled_segments"
  by (simp add: merge_with_transcription_def example_turns_def global_segments_def
      labelled_segments_def local_segment_def dominant_speaker_def sort_reverse_def)

lemma example_api_pipeline:
  "api_pipeline example_env (example_job\<lparr>response_format := fmt, timestamps := ts\<rparr>) =
     ([SaveUpload, ConvertToWav, SplitIntoChunks, RunDiarization] @ example_events,
      Inr (''hello world hello world hello world'', labelled_segments))"
proof -
  have env: "save_upload example_env = (\<lambda>content. Inr ''upload.mp3'')"
    "convert_audio_to_wav example_env = (\<lambda>path. Inr ''audio.wav'')"
    "split_audio_into_chunks example_env = (\<lambda>path d. Inr [''chunk_0'', ''chunk_1'', ''chunk_2''])"
    "diarize_audio example_env = (\<lambda>path. example_turns)"
    "hf_token example_env = Some ''hf_token''"
    by (simp_all add: example_env_def)
  have ne: "example_turns \<noteq> []"
    by (simp add: example_turns_def)
  show ?thesis
    by (simp add: api_pipeline_def env example_chunks example_alignment ne example_job_def
        truthy_str_def del: process_chunks.simps)
qed

lemma example_handler_pipeline:
  "handler_pipeline example_env (example_job\<lparr>response_format := fmt, diarization_segments := Some example_turns\<rparr>) =
     ([DownloadAudio, ConvertToWav, SplitIntoChunks] @ example_events,
      Inr (''hello world hello world hello world'', labelled_segments))"
proof -
  have env: "download_audio example_env = (\<lambda>url. Inr ''input_audio'')"
    "convert_audio_to_wav example_env = (\<lambda>path. Inr ''audio.wav'')"
    "split_audio_into_chunks example_env = (\<lambda>path d. Inr [''chunk_0'', ''chunk_1'', ''chunk_2''])"
    by (simp_all add: example_env_def)
  have ne: "example_turns \<noteq> []"
    by (simp add: example_turns_def)
  show ?thesis
    by (simp add: handler_pipeline_def env example_chunks example_alignment ne example_job_def
        truthy_list_def starts_with_def merge_diarization_eq del: process_chunks.simps)
qed

lemma example_handler_pipeline_plain:
  "handler_pipeline example_env (example_job\<lparr>response_format := fmt\<rparr>) =
     ([DownloadAudio, ConvertToWav, SplitIntoChunks] @ example_events,
      Inr (''hello world hello world hello world'', global_segments))"
proof -
  have env: "download_audio example_env = (\<lambda>url. Inr ''input_audio'')"
    "convert_audio_to_wav example_env = (\<lambda>path. Inr ''audio.wav'')"
    "split_audio_into_chunks example_env = (\<lambda>path d. Inr [''chunk_0'', ''chunk_1'', ''chunk_2''])"
    by (simp_all add: example_env_def)
  show ?thesis
    by (simp add: handler_pipeline_def env example_chunks example_job_def
        truthy_list_def starts_with_def del: process_chunks.simps)
qed

lemma json_valid: "''json'' \<in> set valid_formats" "''verbose_json'' \<in> set valid_formats"
  by (simp_all add: valid_formats_def)

lemma transcription_handler_success:
  assumes "truthy_str (audio job_input)" and "response_format job_input \<in> set valid_formats"
    and "handler_pipeline env job_input = (evs, Inr (full_text, all_segments))"
  shows "transcription_handler env job_input = (evs, format_result env job_input full_text all_segments)"
  using assms(1,2) by (simp add: transcription_handler_def assms(3))

lemma format_result_json:
  "response_format job_input = ''json'' \<Longrightarrow>
   format_result env job_input full_text all_segments =
     (if timestamps job_input \<or> truthy_list (diarization_segments job_input)
      then JObj [(''text'', JStr full_text), (''segments'', JArr (map segment_json all_segments))]
      else JObj [(''text'', JStr full_text)])"
  by (simp add: format_result_def)

lemma format_result_verbose_json:
  "response_format job_input = ''verbose_json'' \<Longrightarrow>
   format_result env job_input full_text all_segments =
     JObj [(''text'', JStr full_text),
           (''language'', json_of_option (language job_input)),
           (''duration'', JNum (sum_list (map (\<lambda>seg. seg_end seg - seg_start seg) all_segments))),
           (''model'', JStr ''parakeet-tdt-0.6b-v2''),
           (''segments'', JArr (map segment_json all_segments))]"
  by (simp add: format_result_def)

lemma transcribe_audio_json:
  assumes "asr_model_loaded env"
    and "response_format form = ''json'' \<or> response_format form = ''verbose_json''"
    and "api_pipeline env form = (evs, Inr (full_text, all_segments))"
  shows "transcribe_audio py env form =
     (evs, JSONResponse
       \<lparr>resp_text = full_text,
        resp_segments = (if timestamps form \<or> response_format form = ''verbose_json''
                         then Some all_segments else None),
        resp_language = language form,
        resp_duration = estimated_duration all_segments,
        resp_model = ''parakeet-tdt-0.6b-v2''\<rparr>)"
  using assms(1,2) by (auto simp add: transcribe_audio_def assms(3))

lemma api_pipeline_format:
  "api_pipeline env (form\<lparr>response_format := fmt\<rparr>) = api_pipeline env form"
  by (simp add: api_pipeline_def cong: sum.case_cong)

text \<open>
  Claim C6, as amended. For \<open>response_format = ''json''\<close> and a pipeline that succeeds:
  the serverless handler returns text and segments when timestamps were requested or
  diarization segments were supplied, and the text alone otherwise; the API's response
  carries the segment list when timestamps were requested and no segments otherwise.
\<close>

theorem json_segments_inclusion:
  "(truthy_str (audio job_input) \<and> response_format job_input = ''json''
      \<and> handler_pipeline env job_input = (evs, Inr (full_text, all_segments))
    \<longrightarrow> snd (transcription_handler env job_input) =
          (if timestamps job_input \<or> truthy_list (diarization_segments job_input)
           then JObj [(''text'', JStr full_text), (''segments'', JArr (map segment_json all_segments))]
           else JObj [(''text'', JStr full_text)]))
   \<and> (asr_model_loaded env \<and> response_format form = ''json''
      \<and> api_pipeline env form = (evs', Inr (full_text', all_segments'))
    \<longrightarrow> (\<exists>response. snd (transcribe_audio py env form) = JSONResponse response
          \<and> resp_text response = full_text'
          \<and> resp_segments response = (if timestamps form then Some all_segments' else None)))"
proof (intro conjI impI)
  assume "truthy_str (audio job_input) \<and> response_format job_input = ''json''
      \<and> handler_pipeline env job_input = (evs, Inr (full_text, all_segments))"
  then show "snd (transcription_handler env job_input) =
          (if timestamps job_input \<or> truthy_list (diarization_segments job_input)
           then JObj [(''text'', JStr full_text), (''segments'', JArr (map segment_json all_segments))]
           else JObj [(''text'', JStr full_text)])"
    using transcription_handler_success[of job_input env evs full_text all_segments]
      format_result_json[of job_input env full_text all_segments] json_valid(1)
    by simp
next
  assume "asr_model_loaded env \<and> response_format form = ''json''
      \<and> api_pipeline env form = (evs', Inr (full_text', all_segments'))"
  then show "\<exists>response. snd (transcribe_audio py env form) = JSONResponse response
          \<and> resp_text response = full_text'
          \<and> resp_segments response = (if timestamps form then Some all_segments' else None)"
    using transcribe_audio_json[of env form evs' full_text' all_segments' py]
    by simp
qed

lemma example_estimate: "estimated_duration labelled_segments = 1 / 25"
  by (simp add: estimated_duration_def labelled_segments_def local_segment_def py_split_def
      is_space_def)

lemma example_durations:
  "sum_list (map (\<lambda>seg. seg_end seg - seg_start seg) global_segments) = 15"
  "sum_list (map (\<lambda>seg. seg_end seg - seg_start seg) labelled_segments) = 15"
  by (simp_all add: global_segments_def labelled_segments_def local_segment_def)

text \<open>The amended C6 at the example without timestamps and without diarization segments.\<close>

theorem json_segments_inclusion_witness:
  "snd (transcription_handler example_env (example_job\<lparr>response_format := ''json''\<rparr>)) =
     JObj [(''text'', JStr ''hello world hello world hello world'')]
   \<and> (\<exists>response.
         snd (transcribe_audio example_python example_env
                (example_job\<lparr>response_format := ''json'', timestamps := False\<rparr>))
           = JSONResponse response
       \<and> resp_text response = ''hello world hello world hello world''
       \<and> resp_segments response = None)"
proof -
  have flags: "\<not> timestamps (example_job\<lparr>response_format := ''json''\<rparr>)"
    "\<not> truthy_list (diarization_segments (example_job\<lparr>response_format := ''json''\<rparr>))"
    by (simp_all add: example_job_def truthy_list_def)
  from json_segments_inclusion[of "example_job\<lparr>response_format := ''json''\<rparr>" example_env
      "[DownloadAudio, ConvertToWav, SplitIntoChunks] @ example_events"
      "''hello world hello world hello world''" global_segments
      "example_job\<lparr>response_format := ''json'', timestamps := False\<rparr>"
      "[SaveUpload, ConvertToWav, SplitIntoChunks, RunDiarization] @ example_events"
      "''hello world hello world hello world''" labelled_segments example_python]
    example_handler_pipeline_plain[of "''json''"] example_api_pipeline[where fmt = "''json''" and ts = False]
    example_truthy flags
  show ?thesis by simp
qed

text \<open>
  C6 as first stated makes the segments depend on the timestamps flag alone. The
  serverless handler, given diarization segments and no timestamps flag, returns the
  segments with the text.
\<close>

theorem json_segments_without_timestamps_counterexample:
  "response_format (example_job\<lparr>response_format := ''json'', diarization_segments := Some example_turns\<rparr>)
     = ''json''
   \<and> \<not> timestamps (example_job\<lparr>response_format := ''json'', diarization_segments := Some example_turns\<rparr>)
   \<and> snd (transcription_handler example_env
            (example_job\<lparr>response_format := ''json'', diarization_segments := Some example_turns\<rparr>)) =
       JObj [(''text'', JStr ''hello world hello world hello world''),
             (''segments'', JArr (map segment_json labelled_segments))]"
proof -
  have "transcription_handler example_env
          (example_job\<lparr>response_format := ''json'', diarization_segments := Some example_turns\<rparr>)
        = ([DownloadAudio, ConvertToWav, SplitIntoChunks] @ example_events,
           format_result example_env
             (example_job\<lparr>response_format := ''json'', diarization_segments := Some example_turns\<rparr>)
             ''hello world hello world hello world'' labelled_segments)"
    by (rule transcription_handler_success)
       (simp_all add: example_truthy json_valid example_handler_pipeline)
  then show ?thesis
    by (simp add: format_result_json truthy_list_def example_turns_def example_job_def)
qed

text \<open>
  Claim C7, as amended. For a pipeline that succeeds: the serverless handler's
  \<open>verbose_json\<close> result has the sum of the segment durations as its duration, its
  \<open>json\<close> result has no duration field, and the API's \<open>json\<close> and \<open>verbose_json\<close>
  responses always carry the word-count estimate (total number of words over 150, and 0
  without segments).
\<close>

theorem duration_field:
  "(truthy_str (audio job1) \<and> response_format job1 = ''verbose_json''
      \<and> handler_pipeline env job1 = (evs1, Inr (text1, segments1))
    \<longrightarrow> py_getitem (snd (transcription_handler env job1)) ''duration''
          = Inr (JNum (sum_list (map (\<lambda>seg. seg_end seg - seg_start seg) segments1))))
   \<and> (truthy_str (audio job2) \<and> response_format job2 = ''json''
      \<and> handler_pipeline env job2 = (evs2, Inr (text2, segments2))
    \<longrightarrow> py_in ''duration'' (snd (transcription_handler env job2)) = Inr False)
   \<and> (asr_model_loaded env
      \<and> (response_format form = ''json'' \<or> response_format form = ''verbose_json'')
      \<and> api_pipeline env form = (evs3, Inr (text3, segments3))
    \<longrightarrow> (\<exists>response. snd (transcribe_audio py env form) = JSONResponse response
          \<and> resp_duration response =
              (if segments3 = [] then 0
               else real (sum_list (map (\<lambda>seg. length (py_split (seg_text seg))) segments3)) / 150)))"
proof (intro conjI impI)
  assume a: "truthy_str (audio job1) \<and> response_format job1 = ''verbose_json''
      \<and> handler_pipeline env job1 = (evs1, Inr (text1, segments1))"
  then have "transcription_handler env job1 = (evs1, format_result env job1 text1 segments1)"
    using transcription_handler_success[of job1 env evs1 text1 segments1] json_valid(2) by simp
  with a show "py_getitem (snd (transcription_handler env job1)) ''duration''
          = Inr (JNum (sum_list (map (\<lambda>seg. seg_end seg - seg_start seg) segments1)))"
    by (simp add: format_result_verbose_json py_getitem_def)
next
  assume a: "truthy_str (audio job2) \<and> response_format job2 = ''json''
      \<and> handler_pipeline env job2 = (evs2, Inr (text2, segments2))"
  then have "transcription_handler env job2 = (evs2, format_result env job2 text2 segments2)"
    using transcription_handler_success[of job2 env evs2 text2 segments2] json_valid(1) by simp
  with a show "py_in ''duration'' (snd (transcription_handler env job2)) = Inr False"
    by (simp add: format_result_json py_in_def)
next
  assume "asr_model_loaded env
      \<and> (response_format form = ''json'' \<or> response_format form = ''verbose_json'')
      \<and> api_pipeline env form = (evs3, Inr (text3, segments3))"
  then show "\<exists>response. snd (transcribe_audio py env form) = JSONResponse response
          \<and> resp_duration response =
              (if segments3 = [] then 0
               else real (sum_list (map (\<lambda>seg. length (py_split (seg_text seg))) segments3)) / 150)"
    using transcribe_audio_json[of env form evs3 text3 segments3 py]
    by (simp add: estimated_duration_def)
qed

text \<open>The amended C7 at the example: 15 seconds of segments, six words.\<close>

theorem duration_field_witness:
  "py_getitem (snd (transcription_handler example_env (example_job\<lparr>response_format := ''verbose_json''\<rparr>)))
      ''duration'' = Inr (JNum 15)
   \<and> py_in ''duration'' (snd (transcription_handler example_env (example_job\<lparr>response_format := ''json''\<rparr>)))
      = Inr False
   \<and> (\<exists>response.
         snd (transcribe_audio example_python example_env
                (example_job\<lparr>response_format := ''verbose_json'', timestamps := False\<rparr>))
           = JSONResponse response
       \<and> resp_duration response = 1 / 25)"
proof -
  have ne: "labelled_segments \<noteq> []"
    by (simp add: labelled_segments_def)
  from duration_field[of "example_job\<lparr>response_format := ''verbose_json''\<rparr>" example_env
      "[DownloadAudio, ConvertToWav, SplitIntoChunks] @ example_events"
      "''hello world hello world hello world''" global_segments
      "example_job\<lparr>response_format := ''json''\<rparr>"
      "[DownloadAudio, ConvertToWav, SplitIntoChunks] @ example_events"
      "''hello world hello world hello world''" global_segments
      "example_job\<lparr>response_format := ''verbose_json'', timestamps := False\<rparr>"
      "[SaveUpload, ConvertToWav, SplitIntoChunks, RunDiarization] @ example_events"
      "''hello world hello world hello world''" labelled_segments example_python]
    example_handler_pipeline_plain[of "''verbose_json''"] example_handler_pipeline_plain[of "''json''"]
    example_api_pipeline[where fmt = "''verbose_json''" and ts = False]
    example_truthy
    example_durations(1) example_estimate ne
  show ?thesis by (auto simp add: estimated_duration_def mult.commute)
qed

text \<open>
  C7 as first stated lets the estimate apply only when segment durations are missing. The
  API's segments here have durations that sum to 15, and the response reports the
  estimate \<open>6 / 150\<close>.
\<close>

theorem api_duration_counterexample:
  "snd (transcribe_audio example_python example_env
          (example_job\<lparr>response_format := ''verbose_json'', timestamps := False\<rparr>)) =
     JSONResponse
       \<lparr>resp_text = ''hello world hello world hello world'',
        resp_segments = Some labelled_segments,
        resp_language = Some ''en'',
        resp_duration = 1 / 25,
        resp_model = ''parakeet-tdt-0.6b-v2''\<rparr>
   \<and> sum_list (map (\<lambda>seg. seg_end seg - seg_start seg) labelled_segments) = 15"
proof -
  have "transcribe_audio example_python example_env
          (example_job\<lparr>response_format := ''verbose_json'', timestamps := False\<rparr>) =
        ([SaveUpload, ConvertToWav, SplitIntoChunks, RunDiarization] @ example_events,
         JSONResponse
          \<lparr>resp_text = ''hello world hello world hello world'',
           resp_segments = Some labelled_segments,
           resp_language = Some ''en'',
           resp_duration = estimated_duration labelled_segments,
           resp_model = ''parakeet-tdt-0.6b-v2''\<rparr>)"
    using transcribe_audio_json[OF example_truthy(3) _ example_api_pipeline[where fmt = "''verbose_json''" and ts = False],
        of example_python]
    by (simp add: example_job_def)
  then show ?thesis
    by (simp add: example_estimate example_durations)
qed

text \<open>The serverless handler validates the format before any work; the API reaches its
  check only after the whole pipeline has run.\<close>

lemma transcription_handler_rejects_format:
  assumes "truthy_str (audio job_input)" and "response_format job_input \<notin> set valid_formats"
  shows "transcription_handler env job_input =
     ([], JObj [(''error'',
        JStr ''Invalid response_format. Must be one of: json, text, srt, vtt, verbose_json'')])"
  using assms by (simp add: transcription_handler_def error_result_def valid_formats_def)

lemma api_checks_format_last:
  assumes "asr_model_loaded env" and "response_format form \<notin> set valid_formats"
    and "api_pipeline env form = (evs, Inr (full_text, all_segments))"
  shows "transcribe_audio py env form =
     (evs, HTTPException 500
        (str_of_http_exception py 400 (''Unsupported response format: '' @ response_format form)))"
  using assms(1,2) by (simp add: transcribe_audio_def assms(3) valid_formats_def)

text \<open>
  Claim C8 at the format \<open>''xml''\<close>. The API saves, converts, splits, diarizes and
  transcribes all three chunks before its last branch rejects the format, and the
  status 400 it raises there leaves as status 500; the serverless handler rejects the
  same format before any work.
\<close>

theorem api_unsupported_format_evaluation:
  "''xml'' \<notin> set valid_formats
   \<and> transcribe_audio example_python example_env
        (example_job\<lparr>response_format := ''xml'', timestamps := False\<rparr>) =
       ([SaveUpload, ConvertToWav, SplitIntoChunks, RunDiarization,
         TranscribeChunk ''chunk_0'', TranscribeChunk ''chunk_1'', TranscribeChunk ''chunk_2''],
        HTTPException 500 ''Unsupported response format: xml'')
   \<and> transcription_handler example_env (example_job\<lparr>response_format := ''xml''\<rparr>) =
       ([], JObj [(''error'',
          JStr ''Invalid response_format. Must be one of: json, text, srt, vtt, verbose_json'')])"
proof -
  have x: "''xml'' \<notin> set valid_formats"
    by (simp add: valid_formats_def)
  have "transcribe_audio example_python example_env
        (example_job\<lparr>response_format := ''xml'', timestamps := False\<rparr>) =
       ([SaveUpload, ConvertToWav, SplitIntoChunks, RunDiarization] @ example_events,
        HTTPException 500
          (str_of_http_exception example_python 400
             (''Unsupported response format: ''
              @ response_format (example_job\<lparr>response_format := ''xml'', timestamps := False\<rparr>))))"
    by (rule api_checks_format_last[OF example_truthy(3) _
          example_api_pipeline[where fmt = "''xml''" and ts = False]])
       (simp add: x)
  moreover have "transcription_handler example_env (example_job\<lparr>response_format := ''xml''\<rparr>) =
       ([], JObj [(''error'',
          JStr ''Invalid response_format. Must be one of: json, text, srt, vtt, verbose_json'')])"
    by (rule transcription_handler_rejects_format) (simp_all add: x example_truthy)
  ultimately show ?thesis
    using x by (simp add: example_events_def example_python_def)
qed

text \<open>
  Claim C10, as amended. In the API the \<open>json\<close> and \<open>verbose_json\<close> outcomes of a request
  are equal when timestamps were requested; in general, when the pipeline succeeds, the
  \<open>verbose_json\<close> response carries the segment list and the \<open>json\<close> response is the same
  response except that its segments are absent unless timestamps were requested.
\<close>

theorem api_json_verbose_json:
  "(timestamps form \<longrightarrow>
      transcribe_audio py env (form\<lparr>response_format := ''json''\<rparr>)
        = transcribe_audio py env (form\<lparr>response_format := ''verbose_json''\<rparr>))
   \<and> (asr_model_loaded env \<and> api_pipeline env form = (evs, Inr (full_text, all_segments))
      \<longrightarrow> (\<exists>response.
             transcribe_audio py env (form\<lparr>response_format := ''verbose_json''\<rparr>)
               = (evs, JSONResponse response)
           \<and> resp_segments response = Some all_segments
           \<and> transcribe_audio py env (form\<lparr>response_format := ''json''\<rparr>)
               = (evs, JSONResponse
                   (response\<lparr>resp_segments := (if timestamps form then Some all_segments else None)\<rparr>))))"
proof (intro conjI impI)
  assume "timestamps form"
  then show "transcribe_audio py env (form\<lparr>response_format := ''json''\<rparr>)
        = transcribe_audio py env (form\<lparr>response_format := ''verbose_json''\<rparr>)"
    by (simp add: transcribe_audio_def api_pipeline_format split: prod.split sum.split)
next
  assume a: "asr_model_loaded env \<and> api_pipeline env form = (evs, Inr (full_text, all_segments))"
  then have p: "api_pipeline env (form\<lparr>response_format := fmt\<rparr>) = (evs, Inr (full_text, all_segments))"
    for fmt
    by (simp add: api_pipeline_format)
  from a have l: "asr_model_loaded env" by simp
  have v: "transcribe_audio py env (form\<lparr>response_format := ''verbose_json''\<rparr>) =
      (evs, JSONResponse
        \<lparr>resp_text = full_text, resp_segments = Some all_segments, resp_language = language form,
         resp_duration = estimated_duration all_segments, resp_model = ''parakeet-tdt-0.6b-v2''\<rparr>)"
    using transcribe_audio_json[OF l _ p[of "''verbose_json''"], of py] by simp
  have j: "transcribe_audio py env (form\<lparr>response_format := ''json''\<rparr>) =
      (evs, JSONResponse
        \<lparr>resp_text = full_text,
         resp_segments = (if timestamps form then Some all_segments else None),
         resp_language = language form,
         resp_duration = estimated_duration all_segments, resp_model = ''parakeet-tdt-0.6b-v2''\<rparr>)"
    using transcribe_audio_json[OF l _ p[of "''json''"], of py] by simp
  show "\<exists>response.
             transcribe_audio py env (form\<lparr>response_format := ''verbose_json''\<rparr>)
               = (evs, JSONResponse response)
           \<and> resp_segments response = Some all_segments
           \<and> transcribe_audio py env (form\<lparr>response_format := ''json''\<rparr>)
               = (evs, JSONResponse
                   (response\<lparr>resp_segments := (if timestamps form then Some all_segments else None)\<rparr>))"
    unfolding v j by simp
qed

text \<open>The amended C10 at the example, with and without the timestamps flag.\<close>

theorem api_json_verbose_json_witness:
  "transcribe_audio example_python example_env
      (example_job\<lparr>timestamps := True, response_format := ''json''\<rparr>)
     = transcribe_audio example_python example_env
         (example_job\<lparr>timestamps := True, response_format := ''verbose_json''\<rparr>)
   \<and> (\<exists>response.
         transcribe_audio example_python example_env
           (example_job\<lparr>timestamps := False, response_format := ''verbose_json''\<rparr>)
           = ([SaveUpload, ConvertToWav, SplitIntoChunks, RunDiarization] @ example_events,
              JSONResponse response)
       \<and> resp_segments response = Some labelled_segments
       \<and> transcribe_audio example_python example_env
           (example_job\<lparr>timestamps := False, response_format := ''json''\<rparr>)
           = ([SaveUpload, ConvertToWav, SplitIntoChunks, RunDiarization] @ example_events,
              JSONResponse (response\<lparr>resp_segments := None\<rparr>)))"
proof -
  have p: "api_pipeline example_env (example_job\<lparr>timestamps := False\<rparr>) =
     ([SaveUpload, ConvertToWav, SplitIntoChunks, RunDiarization] @ example_events,
      Inr (''hello world hello world hello world'', labelled_segments))"
    using example_api_pipeline[where fmt = "''json''" and ts = False]
    by (simp add: example_job_def)
  from api_json_verbose_json[of "example_job\<lparr>timestamps := True\<rparr>" example_python example_env "[]" "[]" "[]"]
  have one: "transcribe_audio example_python example_env
      (example_job\<lparr>timestamps := True, response_format := ''json''\<rparr>)
     = transcribe_audio example_python example_env
         (example_job\<lparr>timestamps := True, response_format := ''verbose_json''\<rparr>)"
    by simp
  from api_json_verbose_json[of "example_job\<lparr>timestamps := False\<rparr>" example_python example_env
      "[SaveUpload, ConvertToWav, SplitIntoChunks, RunDiarization] @ example_events"
      "''hello world hello world hello world''" labelled_segments] p example_truthy(3)
  have two: "\<exists>response.
         transcribe_audio example_python example_env
           (example_job\<lparr>timestamps := False, response_format := ''verbose_json''\<rparr>)
           = ([SaveUpload, ConvertToWav, SplitIntoChunks, RunDiarization] @ example_events,
              JSONResponse response)
       \<and> resp_segments response = Some labelled_segments
       \<and> transcribe_audio example_python example_env
           (example_job\<lparr>timestamps := False, response_format := ''json''\<rparr>)
           = ([SaveUpload, ConvertToWav, SplitIntoChunks, RunDiarization] @ example_events,
              JSONResponse (response\<lparr>resp_segments := None\<rparr>))"
    by simp
  from one two show ?thesis by (rule conjI)
qed

text \<open>
  C10 as first stated makes the two bodies identical for every request. Without the
  timestamps flag they differ.
\<close>

theorem api_json_verbose_json_counterexample:
  "\<not> timestamps (example_job\<lparr>timestamps := False\<rparr>)
   \<and> snd (transcribe_audio example_python example_env
            (example_job\<lparr>timestamps := False, response_format := ''json''\<rparr>))
     \<noteq> snd (transcribe_audio example_python example_env
              (example_job\<lparr>timestamps := False, response_format := ''verbose_json''\<rparr>))"
proof -
  have p: "api_pipeline example_env (example_job\<lparr>timestamps := False, response_format := fmt\<rparr>) =
     ([SaveUpload, ConvertToWav, SplitIntoChunks, RunDiarization] @ example_events,
      Inr (''hello world hello world hello world'', labelled_segments))" for fmt
    using example_api_pipeline[where fmt = fmt and ts = False]
    by (simp add: example_job_def)
  show ?thesis
    using transcribe_audio_json[OF example_truthy(3) _ p[of "''json''"], of example_python]
      transcribe_audio_json[OF example_truthy(3) _ p[of "''verbose_json''"], of example_python]
    by simp
qed

end
